theory Spec2Isabelle
  imports Complex_Main
begin

section \<open>Python values, expressions and the outside world\<close>

text \<open>
  The repository is a set of Jupyter notebooks. Each code cell is a short, loop-free
  sequence of Python statements that call into external libraries (boto3, Airflow,
  the SageMaker SDK). The notebooks are embedded as data (lists of cells, each a list
  of statements) and given meaning by a small interpreter for the Python constructs
  they use: name lookup in the kernel's namespace, attribute access, subscripts, calls
  with positional and keyword arguments, \<open>try\<close>/\<open>except\<close>, \<open>if\<close>/\<open>else\<close>, imports,
  and the IPython line magics \<open>%store\<close> and \<open>!cmd\<close>.

  Every raise of the source is a value of \<open>exn\<close>. \<open>ClientError c\<close> is botocore's
  \<open>ClientError\<close> whose \<open>response['Error']['Code']\<close> is \<open>c\<close>; \<open>OtherError\<close> stands for
  any exception of an external library that is not a \<open>ClientError\<close>.
\<close>

datatype exn =
    NameError string
  | SyntaxError
  | ImportError string
  | ClientError string
  | TypeError
  | KeyError string
  | AttributeError string
  | UsageError string
  | OtherError string

datatype binop = Add | Mod | Eq

text \<open>
  Values. What an external library returns is not known to the notebook, so the result
  of an external operation is kept symbolic: \<open>VExt m\<close> is the imported module \<open>m\<close>,
  \<open>VAttr v a\<close> the attribute \<open>v.a\<close>, \<open>VItem v i\<close> the subscript \<open>v[i]\<close>,
  \<open>VBin\<close> an operator applied to an external operand and \<open>VRet f args kw\<close> the value
  returned by the call \<open>f(*args, **kw)\<close>. Literals of the notebook are concrete.
\<close>

datatype val =
    VNone
  | VBool bool
  | VInt int
  | VStr string
  | VList "val list"
  | VDict "(string \<times> val) list"
  | VExc exn
  | VBuiltin string
  | VExt string
  | VAttr val string
  | VItem val val
  | VBin binop val val
  | VRet val "val list" "(string \<times> val) list"

datatype expr =
    Str string
  | Bool bool
  | Num int
  | NoneE
  | Name string
  | Attr expr string
  | Item expr expr
  | ListE "expr list"
  | DictE "(string \<times> expr) list"
  | BinOp expr binop expr
  | Call expr "expr list" "(string \<times> expr) list"

text \<open>
  The outside world decides, for every external operation (named by its symbolic
  result), whether it raises and what: \<open>w t = None\<close> means the operation returns.
\<close>

type_synonym world = "val \<Rightarrow> exn option"

text \<open>
  The kernel: the namespace, the lines printed (each the argument list of one
  \<open>print\<close>), the external calls made with their outcomes in order, the variables
  saved by \<open>%store\<close> and the shell commands run by \<open>!\<close>.
\<close>

record kernel =
  env :: "string \<rightharpoonup> val"
  out :: "val list list"
  calls :: "(val \<times> exn option) list"
  stored :: "(string \<times> val) list"
  shell :: "string list"

fun symbolic :: "val \<Rightarrow> bool" where
  "symbolic (VExt _) = True"
| "symbolic (VAttr _ _) = True"
| "symbolic (VItem _ _) = True"
| "symbolic (VBin _ _ _) = True"
| "symbolic (VRet _ _ _) = True"
| "symbolic _ = False"

text \<open>A name is looked up in the namespace, then among the builtins (only \<open>print\<close> is used).\<close>

definition lookup :: "kernel \<Rightarrow> string \<Rightarrow> exn + val" where
  "lookup k x =
     (case env k x of
        Some v \<Rightarrow> Inr v
      | None \<Rightarrow> if x = ''print'' then Inr (VBuiltin ''print'') else Inl (NameError x))"

definition consult :: "world \<Rightarrow> val \<Rightarrow> exn + val" where
  "consult w t = (case w t of Some e \<Rightarrow> Inl e | None \<Rightarrow> Inr t)"

text \<open>
  \<open>e.response\<close> of a caught \<open>ClientError\<close> is the error response of the service,
  from which the handlers read \<open>['Error']['Code']\<close>.
\<close>

definition get_attr :: "val \<Rightarrow> string \<Rightarrow> exn + val" where
  "get_attr v a =
     (case v of
        VExc (ClientError c) \<Rightarrow>
          if a = ''response'' then Inr (VDict [(''Error'', VDict [(''Code'', VStr c)])])
          else Inl (AttributeError a)
      | VExc _ \<Rightarrow> Inl (AttributeError a)
      | VNone \<Rightarrow> Inl (AttributeError a)
      | _ \<Rightarrow> Inr (VAttr v a))"

definition get_item :: "world \<Rightarrow> val \<Rightarrow> val \<Rightarrow> exn + val" where
  "get_item w v i =
     (case v of
        VDict kvs \<Rightarrow>
          (case i of
             VStr s \<Rightarrow> (case map_of kvs s of Some x \<Rightarrow> Inr x | None \<Rightarrow> Inl (KeyError s))
           | _ \<Rightarrow> Inl (KeyError []))
      | _ \<Rightarrow> if symbolic v then consult w (VItem v i) else Inl TypeError)"

definition bin_op :: "world \<Rightarrow> binop \<Rightarrow> val \<Rightarrow> val \<Rightarrow> exn + val" where
  "bin_op w b x y =
     (case b of
        Eq \<Rightarrow> if symbolic x \<or> symbolic y then consult w (VBin Eq x y) else Inr (VBool (x = y))
      | Mod \<Rightarrow> (case x of VStr _ \<Rightarrow> Inr (VBin Mod x y)
               | _ \<Rightarrow> if symbolic x \<or> symbolic y then consult w (VBin Mod x y) else Inl TypeError)
      | Add \<Rightarrow>
          if symbolic x \<or> symbolic y then consult w (VBin Add x y)
          else (case (x, y) of (VStr s, VStr t) \<Rightarrow> Inr (VStr (s @ t)) | _ \<Rightarrow> Inl TypeError))"

text \<open>
  A call of \<open>print\<close> appends a line; \<open>str.format\<close> is pure; every other call goes to
  the outside world and is recorded, with its outcome, in \<open>calls\<close>.
\<close>

definition call ::
  "world \<Rightarrow> val \<Rightarrow> val list \<Rightarrow> (string \<times> val) list \<Rightarrow> kernel \<Rightarrow> (exn + val) \<times> kernel" where
  "call w f args kw k =
     (if f = VBuiltin ''print'' then (Inr VNone, k\<lparr>out := out k @ [args]\<rparr>)
      else case f of
        VAttr (VStr s) m \<Rightarrow>
          if m = ''format'' then (Inr (VRet f args kw), k) else (Inl (AttributeError m), k)
      | _ \<Rightarrow>
          if symbolic f
          then (consult w (VRet f args kw),
                k\<lparr>calls := calls k @ [(VRet f args kw, w (VRet f args kw))]\<rparr>)
          else (Inl TypeError, k))"

text \<open>
  Evaluation follows Python's order: the callee, then the positional arguments left to
  right, then the keyword arguments left to right, then the call. The first raise stops
  the evaluation.
\<close>

fun eval :: "world \<Rightarrow> expr \<Rightarrow> kernel \<Rightarrow> (exn + val) \<times> kernel"
and eval_list :: "world \<Rightarrow> expr list \<Rightarrow> kernel \<Rightarrow> (exn + val list) \<times> kernel"
and eval_kw ::
  "world \<Rightarrow> (string \<times> expr) list \<Rightarrow> kernel \<Rightarrow> (exn + (string \<times> val) list) \<times> kernel"
where
  "eval w (Str s) k = (Inr (VStr s), k)"
| "eval w (Bool b) k = (Inr (VBool b), k)"
| "eval w (Num n) k = (Inr (VInt n), k)"
| "eval w NoneE k = (Inr VNone, k)"
| "eval w (Name x) k = (lookup k x, k)"
| "eval w (Attr e a) k =
     (case eval w e k of
        (Inl x, k1) \<Rightarrow> (Inl x, k1)
      | (Inr v, k1) \<Rightarrow> (get_attr v a, k1))"
| "eval w (Item e i) k =
     (case eval w e k of
        (Inl x, k1) \<Rightarrow> (Inl x, k1)
      | (Inr v, k1) \<Rightarrow>
          (case eval w i k1 of
             (Inl x, k2) \<Rightarrow> (Inl x, k2)
           | (Inr u, k2) \<Rightarrow> (get_item w v u, k2)))"
| "eval w (ListE es) k =
     (case eval_list w es k of
        (Inl x, k1) \<Rightarrow> (Inl x, k1)
      | (Inr vs, k1) \<Rightarrow> (Inr (VList vs), k1))"
| "eval w (DictE kes) k =
     (case eval_kw w kes k of
        (Inl x, k1) \<Rightarrow> (Inl x, k1)
      | (Inr kvs, k1) \<Rightarrow> (Inr (VDict kvs), k1))"
| "eval w (BinOp a b c) k =
     (case eval w a k of
        (Inl x, k1) \<Rightarrow> (Inl x, k1)
      | (Inr v, k1) \<Rightarrow>
          (case eval w c k1 of
             (Inl x, k2) \<Rightarrow> (Inl x, k2)
           | (Inr u, k2) \<Rightarrow> (bin_op w b v u, k2)))"
| "eval w (Call f args kw) k =
     (case eval w f k of
        (Inl x, k1) \<Rightarrow> (Inl x, k1)
      | (Inr fv, k1) \<Rightarrow>
          (case eval_list w args k1 of
             (Inl x, k2) \<Rightarrow> (Inl x, k2)
           | (Inr vs, k2) \<Rightarrow>
               (case eval_kw w kw k2 of
                  (Inl x, k3) \<Rightarrow> (Inl x, k3)
                | (Inr kvs, k3) \<Rightarrow> call w fv vs kvs k3)))"
| "eval_list w [] k = (Inr [], k)"
| "eval_list w (e # es) k =
     (case eval w e k of
        (Inl x, k1) \<Rightarrow> (Inl x, k1)
      | (Inr v, k1) \<Rightarrow>
          (case eval_list w es k1 of
             (Inl x, k2) \<Rightarrow> (Inl x, k2)
           | (Inr vs, k2) \<Rightarrow> (Inr (v # vs), k2)))"
| "eval_kw w [] k = (Inr [], k)"
| "eval_kw w ((n, e) # kes) k =
     (case eval w e k of
        (Inl x, k1) \<Rightarrow> (Inl x, k1)
      | (Inr v, k1) \<Rightarrow>
          (case eval_kw w kes k1 of
             (Inl x, k2) \<Rightarrow> (Inl x, k2)
           | (Inr kvs, k2) \<Rightarrow> (Inr ((n, v) # kvs), k2)))"

section \<open>Statements, cells and notebook runs\<close>

text \<open>
  \<open>FromImport m ns tc par\<close> is \<open>from m import n1, n2\<close>; \<open>tc\<close> says that the list of
  names ends in a comma and \<open>par\<close> that it is parenthesised. \<open>Try body cls nm handler\<close>
  is \<open>try: body except cls as nm: handler\<close>. \<open>Store x\<close> is the line magic
  \<open>%store x\<close> and \<open>Shell c\<close> the shell escape \<open>!c\<close>.
\<close>

datatype stmt =
    Import string
  | FromImport string "string list" bool bool
  | Assign string expr
  | Expr expr
  | If expr "stmt list" "stmt list"
  | Try "stmt list" string string "stmt list"
  | Store string
  | Shell string

datatype cell = Markdown | Code "stmt list" | CellMagic string

definition bind :: "string \<Rightarrow> val \<Rightarrow> kernel \<Rightarrow> kernel" where
  "bind x v k = k\<lparr>env := (env k)(x \<mapsto> v)\<rparr>"

definition unbind :: "string \<Rightarrow> kernel \<Rightarrow> kernel" where
  "unbind x k = k\<lparr>env := (env k)(x := None)\<rparr>"

fun truthy :: "val \<Rightarrow> bool" where
  "truthy VNone = False"
| "truthy (VBool b) = b"
| "truthy (VInt n) = (n \<noteq> 0)"
| "truthy (VStr s) = (s \<noteq> [])"
| "truthy (VList vs) = (vs \<noteq> [])"
| "truthy (VDict kvs) = (kvs \<noteq> [])"
| "truthy _ = True"

text \<open>
  \<open>except ClientError\<close> catches an exception only when it is a \<open>ClientError\<close> and the
  name in the clause is bound to that class (imported from a botocore module).
\<close>

definition matches :: "exn \<Rightarrow> val \<Rightarrow> bool" where
  "matches x c =
     (case x of
        ClientError code \<Rightarrow> (case c of VAttr m n \<Rightarrow> n = ''ClientError'' | _ \<Rightarrow> False)
      | _ \<Rightarrow> False)"

text \<open>
  A statement returns the exception it raises, if any, and the kernel it leaves. An
  exception of a \<open>try\<close> body that the clause does not match propagates; after the
  handler, Python deletes the name bound by \<open>as\<close>.
\<close>

fun exec :: "world \<Rightarrow> stmt \<Rightarrow> kernel \<Rightarrow> exn option \<times> kernel"
and exec_block :: "world \<Rightarrow> stmt list \<Rightarrow> kernel \<Rightarrow> exn option \<times> kernel"
where
  "exec w (Import m) k =
     (case w (VExt m) of
        Some x \<Rightarrow> (Some x, k)
      | None \<Rightarrow> (None, bind m (VExt m) k))"
| "exec w (FromImport m ns tc par) k =
     (case w (VExt m) of
        Some x \<Rightarrow> (Some x, k)
      | None \<Rightarrow> (None, fold (\<lambda>n. bind n (VAttr (VExt m) n)) ns k))"
| "exec w (Assign x e) k =
     (case eval w e k of
        (Inl err, k1) \<Rightarrow> (Some err, k1)
      | (Inr v, k1) \<Rightarrow> (None, bind x v k1))"
| "exec w (Expr e) k =
     (case eval w e k of
        (Inl err, k1) \<Rightarrow> (Some err, k1)
      | (Inr v, k1) \<Rightarrow> (None, k1))"
| "exec w (If c ss ts) k =
     (case eval w c k of
        (Inl err, k1) \<Rightarrow> (Some err, k1)
      | (Inr v, k1) \<Rightarrow> if truthy v then exec_block w ss k1 else exec_block w ts k1)"
| "exec w (Try body cls nm handler) k =
     (case exec_block w body k of
        (None, k1) \<Rightarrow> (None, k1)
      | (Some x, k1) \<Rightarrow>
          (case lookup k1 cls of
             Inl err \<Rightarrow> (Some err, k1)
           | Inr c \<Rightarrow>
               if matches x c
               then (case exec_block w handler (bind nm (VExc x) k1) of
                       (r, k2) \<Rightarrow> (r, unbind nm k2))
               else (Some x, k1)))"
| "exec w (Store x) k =
     (case env k x of
        None \<Rightarrow> (Some (UsageError x), k)
      | Some v \<Rightarrow> (None, k\<lparr>stored := stored k @ [(x, v)]\<rparr>))"
| "exec w (Shell c) k = (None, k\<lparr>shell := shell k @ [c]\<rparr>)"
| "exec_block w [] k = (None, k)"
| "exec_block w (s # ss) k =
     (case exec w s k of
        (Some x, k1) \<Rightarrow> (Some x, k1)
      | (None, k1) \<Rightarrow> exec_block w ss k1)"

text \<open>
  A cell is compiled before it runs. The one rule of Python's grammar the notebooks
  break: a trailing comma in \<open>from m import a,\<close> is allowed only inside parentheses.
\<close>

fun syntax_ok :: "stmt \<Rightarrow> bool" where
  "syntax_ok (FromImport m ns tc par) = (if tc then par else True)"
| "syntax_ok (If c ss ts) = (list_all syntax_ok ss \<and> list_all syntax_ok ts)"
| "syntax_ok (Try body cls nm handler) = (list_all syntax_ok body \<and> list_all syntax_ok handler)"
| "syntax_ok _ = True"

definition run_cell :: "world \<Rightarrow> cell \<Rightarrow> kernel \<Rightarrow> exn option \<times> kernel" where
  "run_cell w c k =
     (case c of
        Code ss \<Rightarrow> if list_all syntax_ok ss then exec_block w ss k else (Some SyntaxError, k)
      | _ \<Rightarrow> (None, k))"

text \<open>
  Running the cells top to bottom, one after the other: a cell that raises leaves the
  kernel as it was at the raise, and the next cell runs in that kernel. The result
  lists what every cell raised.
\<close>

fun run_cells :: "world \<Rightarrow> cell list \<Rightarrow> kernel \<Rightarrow> exn option list \<times> kernel" where
  "run_cells w [] k = ([], k)"
| "run_cells w (c # cs) k =
     (case run_cell w c k of
        (r, k1) \<Rightarrow> (case run_cells w cs k1 of (rs, k2) \<Rightarrow> (r # rs, k2)))"

definition fresh :: kernel where
  "fresh = \<lparr>env = Map.empty, out = [], calls = [], stored = [], shell = []\<rparr>"

text \<open>Two families of worlds: nothing raises; every call of one method raises.\<close>

definition quiet :: world where
  "quiet = (\<lambda>t. None)"

definition method_of :: "val \<Rightarrow> string option" where
  "method_of t = (case t of VRet (VAttr r m) args kw \<Rightarrow> Some m | _ \<Rightarrow> None)"

definition raising :: "string \<Rightarrow> exn \<Rightarrow> world" where
  "raising m x = (\<lambda>t. if method_of t = Some m then Some x else None)"

section \<open>Call sites of a notebook\<close>

text \<open>
  The call sites of a notebook, read off its text: the name called (the attribute of a
  method call, or the function's name), whether the site stands in the body of a
  \<open>try\<close> whose clause is \<open>except ClientError\<close> with the already-exists handler, and the
  keyword arguments.
\<close>

definition callee :: "expr \<Rightarrow> string" where
  "callee f = (case f of Name n \<Rightarrow> n | Attr r m \<Rightarrow> m | _ \<Rightarrow> [])"

fun expr_sites :: "expr \<Rightarrow> (string \<times> (string \<times> expr) list) list"
and list_sites :: "expr list \<Rightarrow> (string \<times> (string \<times> expr) list) list"
and kw_sites :: "(string \<times> expr) list \<Rightarrow> (string \<times> (string \<times> expr) list) list"
where
  "expr_sites (Attr e a) = expr_sites e"
| "expr_sites (Item e i) = expr_sites e @ expr_sites i"
| "expr_sites (ListE es) = list_sites es"
| "expr_sites (DictE kes) = kw_sites kes"
| "expr_sites (BinOp a b c) = expr_sites a @ expr_sites c"
| "expr_sites (Call f args kw) =
     expr_sites f @ list_sites args @ kw_sites kw @ [(callee f, kw)]"
| "expr_sites _ = []"
| "list_sites [] = []"
| "list_sites (e # es) = expr_sites e @ list_sites es"
| "kw_sites [] = []"
| "kw_sites ((n, e) # kes) = expr_sites e @ kw_sites kes"

section \<open>The guard of the IAM notebook\<close>

text \<open>
  The IAM notebook wraps each of its creation calls in the same handler:
  \<^verbatim>\<open>
  except ClientError as e:
      if e.response['Error']['Code'] == 'EntityAlreadyExists':
          print("Role already exists")
      else:
          print("Unexpected error: %s" % e)
  \<close>
  with the message of the first branch varying from call to call.
\<close>

definition on_client_error :: "string \<Rightarrow> stmt list" where
  "on_client_error msg =
     [If (BinOp (Item (Item (Attr (Name ''e'') ''response'') (Str ''Error'')) (Str ''Code''))
            Eq (Str ''EntityAlreadyExists''))
        [Expr (Call (Name ''print'') [Str msg] [])]
        [Expr (Call (Name ''print'') [BinOp (Str ''Unexpected error: %s'') Mod (Name ''e'')] [])]]"

definition guarded :: "string \<Rightarrow> stmt list \<Rightarrow> stmt" where
  "guarded msg body = Try body ''ClientError'' ''e'' (on_client_error msg)"

definition exists_handler :: "stmt list \<Rightarrow> bool" where
  "exists_handler h =
     (case h of
        [If c [Expr (Call p [Str msg] [])] els] \<Rightarrow> h = on_client_error msg
      | _ \<Rightarrow> False)"

fun stmt_sites :: "bool \<Rightarrow> stmt \<Rightarrow> (string \<times> bool \<times> (string \<times> expr) list) list"
and block_sites :: "bool \<Rightarrow> stmt list \<Rightarrow> (string \<times> bool \<times> (string \<times> expr) list) list"
where
  "stmt_sites g (Assign x e) = map (\<lambda>(n, kw). (n, g, kw)) (expr_sites e)"
| "stmt_sites g (Expr e) = map (\<lambda>(n, kw). (n, g, kw)) (expr_sites e)"
| "stmt_sites g (If c ss ts) =
     map (\<lambda>(n, kw). (n, g, kw)) (expr_sites c) @ block_sites g ss @ block_sites g ts"
| "stmt_sites g (Try body cls nm h) =
     block_sites (cls = ''ClientError'' \<and> exists_handler h) body @ block_sites g h"
| "stmt_sites g _ = []"
| "block_sites g [] = []"
| "block_sites g (s # ss) = stmt_sites g s @ block_sites g ss"

definition cell_sites :: "cell \<Rightarrow> (string \<times> bool \<times> (string \<times> expr) list) list" where
  "cell_sites c = (case c of Code ss \<Rightarrow> block_sites False ss | _ \<Rightarrow> [])"

definition notebook_sites :: "cell list \<Rightarrow> (string \<times> bool \<times> (string \<times> expr) list) list" where
  "notebook_sites nb = concat (map cell_sites nb)"

text \<open>The resource-creation calls of the repository, and whether each site is guarded.\<close>

definition creation_methods :: "string list" where
  "creation_methods =
     [''create_role'', ''create_policy'', ''attach_role_policy'', ''create_bucket'']"

definition creation_sites :: "cell list \<Rightarrow> (string \<times> bool) list" where
  "creation_sites nb =
     map (\<lambda>(n, g, kw). (n, g)) (filter (\<lambda>(n, g, kw). n \<in> set creation_methods) (notebook_sites nb))"

text \<open>The SageMaker operators of the DAG, with the task id and the wait flag each is given.\<close>

definition sagemaker_operators :: "string list" where
  "sagemaker_operators =
     [''SageMakerProcessingOperator'', ''SageMakerTrainingOperator'',
      ''SageMakerModelOperator'', ''SageMakerEndpointOperator'']"

definition operator_sites :: "cell list \<Rightarrow> (string \<times> expr option \<times> expr option) list" where
  "operator_sites nb =
     map (\<lambda>(n, g, kw). (n, map_of kw ''task_id'', map_of kw ''wait_for_completion''))
       (filter (\<lambda>(n, g, kw). n \<in> set sagemaker_operators) (notebook_sites nb))"

section \<open>The workflow DAG notebook\<close>

text \<open>
  The notebook that defines the Airflow DAG \<open>bert_reviews\<close>
  (\<^verbatim>\<open>src/unnamed/part_000\<close>), cell by cell. A markdown cell is kept as
  \<open>Markdown\<close>, so that the position of a cell in the list is its position in the
  notebook, counted from 0.
\<close>

definition cell_dag :: cell where
  "cell_dag = Code
     [Import ''airflow'',
      FromImport ''airflow'' [''DAG''] False False,
      Assign ''default_args''
        (DictE [(''owner'', Str ''airflow''), (''provide_context'', Bool True)]),
      Assign ''dag''
        (Call (Name ''DAG'') [Str ''bert_reviews'']
           [(''default_args'', Name ''default_args''), (''schedule_interval'', Str ''@once'')])]"

definition cell_init :: cell where
  "cell_init = Code
     [Assign ''init''
        (Call (Name ''DummyOperator'') [] [(''task_id'', Str ''start''), (''dag'', Name ''dag'')])]"

definition cell_process :: cell where
  "cell_process = Code
     [FromImport ''airflow.contrib.operators.sagemaker_processing_operator''
        [''SageMakerProcessingOperator''] False False,
      FromImport ''sagemaker.workflow.airflow'' [''processing_config''] False False,
      Assign ''process_config''
        (Call (Name ''processing_config'') []
           [(''estimator'', Name ''estimator''),
            (''inputs'', Name ''input_data_s3_uri''),
            (''outputs'', Name ''output_data_s3_uri'')]),
      Assign ''process_op''
        (Call (Name ''SageMakerProcessingOperator'') []
           [(''task_id'', Str ''process''),
            (''config'', Name ''process_config''),
            (''wait_for_completion'', Bool True),
            (''dag'', Name ''dag'')])]"

definition cell_process_upstream :: cell where
  "cell_process_upstream = Code
     [Expr (Call (Attr (Name ''process_op'') ''set_upstream'') [Name ''init''] [])]"

definition cell_estimator :: cell where
  "cell_estimator = Code
     [FromImport ''sagemaker.tensorflow'' [''TensorFlow''] False False,
      Assign ''estimator''
        (Call (Name ''TensorFlow'') []
           [(''entry_point'', Str ''tf_bert_reviews.py''),
            (''source_dir'', Str ''src''),
            (''role'', Name ''role''),
            (''instance_count'', Name ''train_instance_count''),
            (''instance_type'', Name ''train_instance_type''),
            (''volume_size'', Name ''train_volume_size''),
            (''use_spot_instances'', Bool True),
            (''max_wait'', Num 7200),
            (''checkpoint_s3_uri'', Name ''checkpoint_s3_uri''),
            (''py_version'', Str ''py3''),
            (''framework_version'', Str ''2.1.0''),
            (''hyperparameters'', DictE
               [(''epochs'', Name ''epochs''),
                (''learning_rate'', Name ''learning_rate''),
                (''epsilon'', Name ''epsilon''),
                (''train_batch_size'', Name ''train_batch_size''),
                (''validation_batch_size'', Name ''validation_batch_size''),
                (''test_batch_size'', Name ''test_batch_size''),
                (''train_steps_per_epoch'', Name ''train_steps_per_epoch''),
                (''validation_steps'', Name ''validation_steps''),
                (''test_steps'', Name ''test_steps''),
                (''use_xla'', Name ''use_xla''),
                (''use_amp'', Name ''use_amp''),
                (''max_seq_length'', Name ''max_seq_length''),
                (''freeze_bert_layer'', Name ''freeze_bert_layer''),
                (''enable_sagemaker_debugger'', Name ''enable_sagemaker_debugger''),
                (''enable_checkpointing'', Name ''enable_checkpointing''),
                (''enable_tensorboard'', Name ''enable_tensorboard''),
                (''run_validation'', Name ''run_validation''),
                (''run_test'', Name ''run_test''),
                (''run_sample_predictions'', Name ''run_sample_predictions'')]),
            (''input_mode'', Name ''input_mode''),
            (''metric_definitions'', Name ''metrics_definitions''),
            (''rules'', Name ''rules''),
            (''debugger_hook_config'', Name ''hook_config''),
            (''max_run'', Num 7200)])]"

definition cell_train :: cell where
  "cell_train = Code
     [FromImport ''airflow.contrib.operators.sagemaker_training_operator''
        [''SageMakerTrainingOperator''] False False,
      FromImport ''sagemaker.workflow.airflow'' [''training_config''] False False,
      Assign ''train_config''
        (Call (Name ''training_config'') []
           [(''estimator'', Name ''estimator''), (''inputs'', Name ''input_data_s3_uri'')]),
      Assign ''train_op''
        (Call (Name ''SageMakerTrainingOperator'') []
           [(''task_id'', Str ''train''),
            (''config'', Name ''train_config''),
            (''wait_for_completion'', Bool True),
            (''dag'', Name ''dag'')])]"

definition cell_train_upstream :: cell where
  "cell_train_upstream = Code
     [Expr (Call (Attr (Name ''train_op'') ''set_upstream'') [Name ''process_op''] [])]"

definition cell_model :: cell where
  "cell_model = Code
     [FromImport ''airflow.contrib.operators.sagemaker_model_operator''
        [''SageMakerModelOperator''] False False,
      FromImport ''sagemaker.workflow.airflow'' [''model_config''] False False,
      Assign ''model_op''
        (Call (Name ''SageMakerModelOperator'') []
           [(''task_id'', Str ''model''),
            (''config'', Name ''model_config''),
            (''wait_for_completion'', Bool True),
            (''dag'', Name ''dag'')])]"

definition cell_model_upstream :: cell where
  "cell_model_upstream = Code
     [Expr (Call (Attr (Name ''model_op'') ''set_upstream'') [Name ''train_op''] [])]"

definition cell_deploy :: cell where
  "cell_deploy = Code
     [FromImport ''airflow.contrib.operators.sagemaker_endpoint_operator''
        [''SageMakerEndpointOperator''] False False,
      FromImport ''sagemaker.workflow.airflow'' [''endpoint_config''] True False,
      Assign ''deploy_op''
        (Call (Name ''SageMakerEndpointOperator'') []
           [(''task_id'', Str ''deploy''),
            (''config'', Name ''endpoint_config''),
            (''wait_for_completion'', Bool True),
            (''dag'', Name ''dag'')])]"

definition cell_deploy_upstream :: cell where
  "cell_deploy_upstream = Code
     [Expr (Call (Attr (Name ''deploy_op'') ''set_upstream'') [Name ''model_op''] [])]"

definition cell_dependencies :: cell where
  "cell_dependencies = Code
     [Expr (Call (Attr (Name ''init'') ''set_downstream'') [Name ''process_op''] []),
      Expr (Call (Attr (Name ''processing_op'') ''set_downstream'') [Name ''train_op''] []),
      Expr (Call (Attr (Name ''train_op'') ''set_downstream'') [Name ''model_op''] []),
      Expr (Call (Attr (Name ''model_op'') ''set_downstream'') [Name ''deploy_op''] [])]"

definition dag_notebook :: "cell list" where
  "dag_notebook =
     [Markdown, Markdown, cell_dag, cell_init,
      Markdown, cell_process, cell_process_upstream,
      Markdown, cell_estimator, cell_train, cell_train_upstream,
      Markdown, cell_model, cell_model_upstream,
      Markdown, cell_deploy, cell_deploy_upstream,
      Markdown, cell_dependencies]"

text \<open>
  The edges of the DAG are read off the calls that returned: \<open>t.set_upstream(u)\<close> makes
  \<open>u\<close> an upstream task of \<open>t\<close>, \<open>t.set_downstream(u)\<close> makes \<open>u\<close> a downstream task of
  \<open>t\<close>. A task is the value an operator's constructor returned, named by the
  \<open>task_id\<close> it was given. An edge is (upstream task, downstream task).
\<close>

definition task_id_of :: "val \<Rightarrow> string option" where
  "task_id_of v =
     (case v of
        VRet f args kw \<Rightarrow> (case map_of kw ''task_id'' of Some (VStr s) \<Rightarrow> Some s | _ \<Rightarrow> None)
      | _ \<Rightarrow> None)"

definition link :: "val \<Rightarrow> val \<Rightarrow> (string \<times> string) list" where
  "link u d =
     (case (task_id_of u, task_id_of d) of
        (Some a, Some b) \<Rightarrow> [(a, b)]
      | _ \<Rightarrow> [])"

definition edge_of :: "val \<times> exn option \<Rightarrow> (string \<times> string) list" where
  "edge_of c =
     (case c of
        (VRet (VAttr t m) [u] [], None) \<Rightarrow>
          if m = ''set_upstream'' then link u t
          else if m = ''set_downstream'' then link t u
          else []
      | _ \<Rightarrow> [])"

definition dag_edges :: "kernel \<Rightarrow> (string \<times> string) list" where
  "dag_edges k = concat (map edge_of (calls k))"

definition chain :: "(string \<times> string) list" where
  "chain = [(''start'', ''process''), (''process'', ''train''),
            (''train'', ''model''), (''model'', ''deploy'')]"

text \<open>
  The names no cell ever binds in a run from a fresh kernel, and no edge: the invariant
  of the DAG notebook's run.
\<close>

definition stuck :: "kernel \<Rightarrow> bool" where
  "stuck k =
     (env k ''DummyOperator'' = None \<and> env k ''init'' = None \<and>
      env k ''estimator'' = None \<and> env k ''role'' = None \<and>
      env k ''process_op'' = None \<and> env k ''train_op'' = None \<and>
      env k ''deploy_op'' = None \<and> env k ''processing_op'' = None \<and> dag_edges k = [])"

text \<open>
  The operators a run has constructed: the calls of a SageMaker operator class that
  returned, each with the task id and the wait flag it was given. In a run from a fresh
  kernel no operator but the one of the task \<open>model\<close> is ever among them.
\<close>

definition is_operator :: "val \<Rightarrow> bool" where
  "is_operator t =
     (case t of VRet (VAttr m n) args kw \<Rightarrow> n \<in> set sagemaker_operators | _ \<Rightarrow> False)"

definition wait_of :: "val \<Rightarrow> val option" where
  "wait_of t = (case t of VRet f args kw \<Rightarrow> map_of kw ''wait_for_completion'' | _ \<Rightarrow> None)"

definition constructed_operators :: "kernel \<Rightarrow> (string option \<times> val option) list" where
  "constructed_operators k =
     map (\<lambda>c. (task_id_of (fst c), wait_of (fst c)))
       (filter (\<lambda>c. is_operator (fst c) \<and> snd c = None) (calls k))"

definition only_model :: "kernel \<Rightarrow> bool" where
  "only_model k =
     (stuck k \<and>
      list_all (\<lambda>p. p = (Some ''model'', Some (VBool True))) (constructed_operators k))"

section \<open>The bucket notebook\<close>

text \<open>
  \<^verbatim>\<open>src/10_pipeline/airflow/00_Create_S3_Bucket.ipynb\<close>: the first cell creates the
  bucket and sets its public-access block, outside any \<open>try\<close>; a later cell checks the
  bucket with \<open>head_bucket\<close> inside \<open>try\<close>/\<open>except ClientError\<close> and sets the flag
  \<open>setup_s3_bucket_passed\<close>. The cells \<open>%%html\<close> and \<open>%%javascript\<close> at the end are
  not Python.
\<close>

definition cell_create_bucket :: cell where
  "cell_create_bucket = Code
     [Import ''boto3'',
      Assign ''session'' (Call (Attr (Attr (Name ''boto3'') ''session'') ''Session'') [] []),
      Assign ''region'' (Attr (Name ''session'') ''region_name''),
      Assign ''account_id''
        (Call (Attr (Call (Attr (Call (Attr (Name ''boto3'') ''client'') [Str ''sts''] [])
                             ''get_caller_identity'') [] [])
                 ''get'') [Str ''Account''] []),
      Assign ''airflow_bucket_name''
        (BinOp (BinOp (BinOp (Str ''airflow-'') Add (Name ''region'')) Add (Str ''-''))
           Add (Name ''account_id'')),
      Assign ''s3''
        (Call (Attr (Call (Attr (Name ''boto3'') ''Session'') [] []) ''client'') []
           [(''service_name'', Str ''s3''), (''region_name'', Name ''region'')]),
      Expr (Call (Attr (Name ''s3'') ''create_bucket'') []
              [(''Bucket'', Name ''airflow_bucket_name'')]),
      Assign ''response''
        (Call (Attr (Name ''s3'') ''put_public_access_block'') []
           [(''Bucket'', Name ''airflow_bucket_name''),
            (''PublicAccessBlockConfiguration'', DictE
               [(''BlockPublicAcls'', Bool True),
                (''IgnorePublicAcls'', Bool True),
                (''BlockPublicPolicy'', Bool True),
                (''RestrictPublicBuckets'', Bool True)])])]"

definition cell_paths :: cell where
  "cell_paths = Code
     [Assign ''s3_mwaa_private_path''
        (Call (Attr (Str ''s3://{}'') ''format'') [Name ''airflow_bucket_name''] []),
      Assign ''s3_mwaa_dags_private_path''
        (Call (Attr (Str ''s3://{}/dags'') ''format'') [Name ''airflow_bucket_name''] []),
      Assign ''s3_mwaa_pipeline_private_path''
        (Call (Attr (Str ''s3://{}/dags/pipeline'') ''format'') [Name ''airflow_bucket_name''] []),
      Expr (Call (Name ''print'') [Name ''s3_mwaa_private_path''] [])]"

definition cell_flag :: cell where
  "cell_flag = Code [Assign ''setup_s3_bucket_passed'' (Bool False)]"

definition cell_default_bucket :: cell where
  "cell_default_bucket = Code
     [Expr (Call (Name ''print'')
        [Call (Attr (Str ''Default bucket: {}'') ''format'') [Name ''airflow_bucket_name''] []] [])]"

definition cell_store_paths :: cell where
  "cell_store_paths = Code
     [Store ''airflow_bucket_name'',
      Store ''s3_mwaa_private_path'',
      Store ''s3_mwaa_dags_private_path'',
      Store ''s3_mwaa_pipeline_private_path'']"

definition cell_list_bucket :: cell where
  "cell_list_bucket = Code [Shell ''aws s3 ls $s3_mwaa_private_path'']"

definition cell_head_bucket :: cell where
  "cell_head_bucket = Code
     [FromImport ''botocore.client'' [''ClientError''] False False,
      Assign ''response'' NoneE,
      Try
        [Assign ''response''
           (Call (Attr (Name ''s3'') ''head_bucket'') []
              [(''Bucket'', Name ''airflow_bucket_name'')]),
         Expr (Call (Name ''print'') [Name ''response''] []),
         Assign ''setup_s3_bucket_passed'' (Bool True)]
        ''ClientError'' ''e''
        [Expr (Call (Name ''print'')
           [Call (Attr (Str ''[ERROR] Cannot find bucket {} in {} due to {}.'') ''format'')
              [Name ''airflow_bucket_name'', Name ''response'', Name ''e''] []] [])]]"

definition cell_store_flag :: cell where
  "cell_store_flag = Code [Store ''setup_s3_bucket_passed'']"

definition s3_notebook :: "cell list" where
  "s3_notebook =
     [Markdown, cell_create_bucket, cell_paths, cell_flag, cell_default_bucket,
      cell_store_paths, Markdown, cell_list_bucket, cell_head_bucket, cell_store_flag,
      Markdown, CellMagic ''html'', CellMagic ''javascript'', Code []]"

text \<open>
  The values the first cell computes when nothing raises: the bucket name
  \<open>"airflow-" + region + "-" + account_id\<close>, the S3 client, and the three calls the
  notebook makes on that client.
\<close>

definition session_v :: val where
  "session_v = VRet (VAttr (VAttr (VExt ''boto3'') ''session'') ''Session'') [] []"

definition region_v :: val where
  "region_v = VAttr session_v ''region_name''"

definition account_id_v :: val where
  "account_id_v =
     VRet (VAttr (VRet (VAttr (VRet (VAttr (VExt ''boto3'') ''client'') [VStr ''sts''] [])
                          ''get_caller_identity'') [] [])
             ''get'') [VStr ''Account''] []"

definition bucket_v :: val where
  "bucket_v =
     VBin Add (VBin Add (VBin Add (VStr ''airflow-'') region_v) (VStr ''-'')) account_id_v"

definition s3_v :: val where
  "s3_v = VRet (VAttr (VRet (VAttr (VExt ''boto3'') ''Session'') [] []) ''client'') []
            [(''service_name'', VStr ''s3''), (''region_name'', region_v)]"

definition all_blocked :: val where
  "all_blocked = VDict
     [(''BlockPublicAcls'', VBool True),
      (''IgnorePublicAcls'', VBool True),
      (''BlockPublicPolicy'', VBool True),
      (''RestrictPublicBuckets'', VBool True)]"

definition create_bucket_call :: val where
  "create_bucket_call = VRet (VAttr s3_v ''create_bucket'') [] [(''Bucket'', bucket_v)]"

definition put_block_call :: val where
  "put_block_call = VRet (VAttr s3_v ''put_public_access_block'') []
     [(''Bucket'', bucket_v), (''PublicAccessBlockConfiguration'', all_blocked)]"

definition head_bucket_call :: val where
  "head_bucket_call = VRet (VAttr s3_v ''head_bucket'') [] [(''Bucket'', bucket_v)]"

definition is_s3_client :: "val \<Rightarrow> bool" where
  "is_s3_client v =
     (case v of
        VRet (VAttr f c) args kw \<Rightarrow> c = ''client'' \<and> map_of kw ''service_name'' = Some (VStr ''s3'')
      | _ \<Rightarrow> False)"

definition on_s3 :: "val \<times> exn option \<Rightarrow> bool" where
  "on_s3 c = (case fst c of VRet (VAttr r m) args kw \<Rightarrow> is_s3_client r | _ \<Rightarrow> False)"

definition s3_calls :: "kernel \<Rightarrow> (val \<times> exn option) list" where
  "s3_calls k = filter on_s3 (calls k)"

definition put_calls :: "kernel \<Rightarrow> (val \<times> exn option) list" where
  "put_calls k = filter (\<lambda>c. method_of (fst c) = Some ''put_public_access_block'') (calls k)"

definition pab_config :: "val \<Rightarrow> val option" where
  "pab_config t =
     (case t of VRet f args kw \<Rightarrow> map_of kw ''PublicAccessBlockConfiguration'' | _ \<Rightarrow> None)"

definition setting :: "val \<Rightarrow> string \<Rightarrow> val option" where
  "setting v s = (case v of VDict kvs \<Rightarrow> map_of kvs s | _ \<Rightarrow> None)"

text \<open>The world in which only \<open>head_bucket\<close> may raise, and the line its handler prints.\<close>

definition head_world :: "exn option \<Rightarrow> world" where
  "head_world r = (\<lambda>t. if method_of t = Some ''head_bucket'' then r else None)"

definition head_error_line :: "exn \<Rightarrow> val list" where
  "head_error_line x =
     [VRet (VAttr (VStr ''[ERROR] Cannot find bucket {} in {} due to {}.'') ''format'')
        [bucket_v, VNone, VExc x] []]"

definition path_line :: "val list" where
  "path_line = [VRet (VAttr (VStr ''s3://{}'') ''format'') [bucket_v] []]"

definition default_bucket_line :: "val list" where
  "default_bucket_line = [VRet (VAttr (VStr ''Default bucket: {}'') ''format'') [bucket_v] []]"

text \<open>
  What the run of the bucket notebook depends on: the four names its S3 calls and its
  flag read, the calls made so far, and the lines of the \<open>head_bucket\<close> handler printed
  so far.
\<close>

definition is_error_line :: "val list \<Rightarrow> bool" where
  "is_error_line l =
     (case l of
        [VRet (VAttr (VStr s) m) args kw] \<Rightarrow> s = ''[ERROR] Cannot find bucket {} in {} due to {}.''
      | _ \<Rightarrow> False)"

definition error_lines :: "kernel \<Rightarrow> val list list" where
  "error_lines k = filter is_error_line (out k)"

definition s3_core ::
  "kernel \<Rightarrow> (val option \<times> val option \<times> val option \<times> val option) \<times>
     (val \<times> exn option) list \<times> val list list" where
  "s3_core k =
     ((env k ''print'', env k ''airflow_bucket_name'', env k ''s3'',
       env k ''setup_s3_bucket_passed''), calls k, error_lines k)"

section \<open>The IAM notebook\<close>

text \<open>
  \<^verbatim>\<open>src/04_ingest/archive/IAM_Redshift.ipynb\<close>: a role, two policies and their
  attachment to the role, each creation call in the guard above. The body of each guard
  is named, and the cell is built from it.
\<close>

definition cell_iam_client :: cell where
  "cell_iam_client = Code
     [Import ''json'',
      Import ''boto3'',
      FromImport ''botocore.exceptions'' [''ClientError''] False False,
      Assign ''iam'' (Call (Attr (Name ''boto3'') ''client'') [Str ''iam''] [])]"

definition cell_assume_role_policy_doc :: cell where
  "cell_assume_role_policy_doc = Code
     [Assign ''assume_role_policy_doc'' (DictE
        [(''Version'', Str ''2012-10-17''),
         (''Statement'', ListE
            [DictE
               [(''Effect'', Str ''Allow''),
                (''Principal'', DictE [(''Service'', Str ''redshift.amazonaws.com'')]),
                (''Action'', Str ''sts:AssumeRole'')]])])]"

definition cell_role_name :: cell where
  "cell_role_name = Code [Assign ''iam_redshift_role_name'' (Str ''DSOAWS_Redshift'')]"

definition body_create_role :: "stmt list" where
  "body_create_role =
     [Assign ''iam_role_redshift''
        (Call (Attr (Name ''iam'') ''create_role'') []
           [(''RoleName'', Name ''iam_redshift_role_name''),
            (''AssumeRolePolicyDocument'',
               Call (Attr (Name ''json'') ''dumps'') [Name ''assume_role_policy_doc''] []),
            (''Description'', Str ''DSOAWS Redshift Role'')])]"

definition cell_create_role :: cell where
  "cell_create_role = Code [guarded ''Role already exists'' body_create_role]"

definition cell_role_arn :: cell where
  "cell_role_arn = Code
     [Assign ''iam_role_redshift_arn''
        (Item (Item (Name ''iam_role_redshift'') (Str ''Role'')) (Str ''Arn''))]"

definition cell_print_role_arn :: cell where
  "cell_print_role_arn = Code [Expr (Call (Name ''print'') [Name ''iam_role_redshift_arn''] [])]"

definition cell_get_role :: cell where
  "cell_get_role = Code
     [Assign ''role''
        (Call (Attr (Name ''iam'') ''get_role'') [] [(''RoleName'', Str ''DSOAWS_Redshift'')]),
      Assign ''role_arn'' (Item (Item (Name ''role'') (Str ''Role'')) (Str ''Arn'')),
      Expr (Call (Name ''print'') [Name ''role_arn''] [])]"

definition cell_redshift_to_s3 :: cell where
  "cell_redshift_to_s3 = Code
     [Assign ''my_redshift_to_s3'' (DictE
        [(''Version'', Str ''2012-10-17''),
         (''Statement'', ListE
            [DictE
               [(''Effect'', Str ''Allow''),
                (''Action'', Str ''s3:*''),
                (''Resource'', Str ''*'')]])])]"

definition cell_redshift_to_athena :: cell where
  "cell_redshift_to_athena = Code
     [Assign ''my_redshift_to_athena'' (DictE
        [(''Version'', Str ''2012-10-17''),
         (''Statement'', ListE
            [DictE
               [(''Effect'', Str ''Allow''),
                (''Action'', ListE [Str ''athena:*'']),
                (''Resource'', ListE [Str ''*''])],
             DictE
               [(''Effect'', Str ''Allow''),
                (''Action'', ListE
                   [Str ''glue:CreateDatabase'',
                    Str ''glue:DeleteDatabase'',
                    Str ''glue:GetDatabase'',
                    Str ''glue:GetDatabases'',
                    Str ''glue:UpdateDatabase'',
                    Str ''glue:CreateTable'',
                    Str ''glue:DeleteTable'',
                    Str ''glue:BatchDeleteTable'',
                    Str ''glue:UpdateTable'',
                    Str ''glue:GetTable'',
                    Str ''glue:GetTables'',
                    Str ''glue:BatchCreatePartition'',
                    Str ''glue:CreatePartition'',
                    Str ''glue:DeletePartition'',
                    Str ''glue:BatchDeletePartition'',
                    Str ''glue:UpdatePartition'',
                    Str ''glue:GetPartition'',
                    Str ''glue:GetPartitions'',
                    Str ''glue:BatchGetPartition'']),
                (''Resource'', ListE [Str ''*''])],
             DictE
               [(''Effect'', Str ''Allow''),
                (''Action'', ListE
                   [Str ''s3:GetBucketLocation'',
                    Str ''s3:GetObject'',
                    Str ''s3:ListBucket'',
                    Str ''s3:ListBucketMultipartUploads'',
                    Str ''s3:ListMultipartUploadParts'',
                    Str ''s3:AbortMultipartUpload'',
                    Str ''s3:CreateBucket'',
                    Str ''s3:PutObject'']),
                (''Resource'', ListE [Str ''arn:aws:s3:::aws-athena-query-results-*''])],
             DictE
               [(''Effect'', Str ''Allow''),
                (''Action'', ListE [Str ''s3:GetObject'', Str ''s3:ListBucket'']),
                (''Resource'', ListE [Str ''arn:aws:s3:::athena-examples*''])],
             DictE
               [(''Effect'', Str ''Allow''),
                (''Action'', ListE
                   [Str ''s3:ListBucket'',
                    Str ''s3:GetBucketLocation'',
                    Str ''s3:ListAllMyBuckets'']),
                (''Resource'', ListE [Str ''*''])],
             DictE
               [(''Effect'', Str ''Allow''),
                (''Action'', ListE [Str ''sns:ListTopics'', Str ''sns:GetTopicAttributes'']),
                (''Resource'', ListE [Str ''*''])],
             DictE
               [(''Effect'', Str ''Allow''),
                (''Action'', ListE
                   [Str ''cloudwatch:PutMetricAlarm'',
                    Str ''cloudwatch:DescribeAlarms'',
                    Str ''cloudwatch:DeleteAlarms'']),
                (''Resource'', ListE [Str ''*''])],
             DictE
               [(''Effect'', Str ''Allow''),
                (''Action'', ListE [Str ''lakeformation:GetDataAccess'']),
                (''Resource'', ListE [Str ''*''])]])])]"

definition body_create_policy_s3 :: "stmt list" where
  "body_create_policy_s3 =
     [Assign ''policy_redshift_s3''
        (Call (Attr (Name ''iam'') ''create_policy'') []
           [(''PolicyName'', Str ''DSOAWS_RedshiftPolicyToS3''),
            (''PolicyDocument'',
               Call (Attr (Name ''json'') ''dumps'') [Name ''my_redshift_to_s3''] [])])]"

definition cell_create_policy_s3 :: cell where
  "cell_create_policy_s3 = Code
     [guarded ''Policy already exists'' body_create_policy_s3,
      Expr (Call (Name ''print'') [Name ''policy_redshift_s3''] [])]"

definition cell_policy_s3_arn :: cell where
  "cell_policy_s3_arn = Code
     [Assign ''policy_redshift_s3_arn''
        (Item (Item (Name ''policy_redshift_s3'') (Str ''Policy'')) (Str ''Arn'')),
      Expr (Call (Name ''print'') [Name ''policy_redshift_s3_arn''] [])]"

definition body_create_policy_athena :: "stmt list" where
  "body_create_policy_athena =
     [Assign ''policy_redshift_athena''
        (Call (Attr (Name ''iam'') ''create_policy'') []
           [(''PolicyName'', Str ''DSOAWS_RedshiftPolicyToAthena''),
            (''PolicyDocument'',
               Call (Attr (Name ''json'') ''dumps'') [Name ''my_redshift_to_athena''] [])])]"

definition cell_create_policy_athena :: cell where
  "cell_create_policy_athena = Code
     [guarded ''Policy already exists'' body_create_policy_athena,
      Expr (Call (Name ''print'') [Name ''policy_redshift_athena''] [])]"

definition cell_policy_athena_arn :: cell where
  "cell_policy_athena_arn = Code
     [Assign ''policy_redshift_athena_arn''
        (Item (Item (Name ''policy_redshift_athena'') (Str ''Policy'')) (Str ''Arn'')),
      Expr (Call (Name ''print'') [Name ''policy_redshift_athena_arn''] [])]"

definition body_attach_athena :: "stmt list" where
  "body_attach_athena =
     [Assign ''response''
        (Call (Attr (Name ''iam'') ''attach_role_policy'') []
           [(''PolicyArn'', Name ''policy_redshift_athena_arn''),
            (''RoleName'', Name ''iam_redshift_role_name'')])]"

definition cell_attach_athena :: cell where
  "cell_attach_athena = Code [guarded ''Policy is already attached'' body_attach_athena]"

definition body_attach_s3 :: "stmt list" where
  "body_attach_s3 =
     [Assign ''response''
        (Call (Attr (Name ''iam'') ''attach_role_policy'') []
           [(''PolicyArn'', Name ''policy_redshift_s3_arn''),
            (''RoleName'', Name ''iam_redshift_role_name'')])]"

definition cell_attach_s3 :: cell where
  "cell_attach_s3 = Code [guarded ''Policy is already attached'' body_attach_s3]"

definition iam_notebook :: "cell list" where
  "iam_notebook =
     [Markdown, cell_iam_client,
      Markdown, cell_assume_role_policy_doc,
      Markdown, cell_role_name, cell_create_role, cell_role_arn, cell_print_role_arn,
      Markdown, cell_get_role,
      Markdown, Markdown, Markdown, cell_redshift_to_s3,
      Markdown, cell_redshift_to_athena,
      Markdown, cell_create_policy_s3, cell_policy_s3_arn,
      cell_create_policy_athena, cell_policy_athena_arn,
      Markdown, cell_attach_athena, cell_attach_s3,
      Markdown]"

section \<open>The featurization notebook\<close>

text \<open>
  \<^verbatim>\<open>src/02_usecases/sagemaker_recommendations/wip/04_Featurization.ipynb\<close> configures
  Keras preprocessing layers. The text feature of a movie title is built in
  \<open>MovieModel.__init__\<close>:
  \<^verbatim>\<open>
  max_tokens = 10_000
  self.title_text_embedding = tf.keras.Sequential([
    tf.keras.layers.experimental.preprocessing.TextVectorization(max_tokens=max_tokens),
    tf.keras.layers.Embedding(max_tokens, 32, mask_zero=True),
    tf.keras.layers.GlobalAveragePooling1D(),
  ])
  \<close>
  The expression is transcribed as it stands; the layers it names are read off it.
\<close>

definition max_tokens :: nat where
  "max_tokens = 10000"

definition keras_layer :: "string \<Rightarrow> expr" where
  "keras_layer n = Attr (Attr (Attr (Name ''tf'') ''keras'') ''layers'') n"

definition keras_preprocessing :: "string \<Rightarrow> expr" where
  "keras_preprocessing n =
     Attr (Attr (Attr (Attr (Attr (Name ''tf'') ''keras'') ''layers'') ''experimental'')
       ''preprocessing'') n"

definition title_text_embedding_expr :: expr where
  "title_text_embedding_expr =
     Call (Attr (Attr (Name ''tf'') ''keras'') ''Sequential'')
       [ListE
          [Call (keras_preprocessing ''TextVectorization'') [] [(''max_tokens'', Name ''max_tokens'')],
           Call (keras_layer ''Embedding'') [Name ''max_tokens'', Num 32] [(''mask_zero'', Bool True)],
           Call (keras_layer ''GlobalAveragePooling1D'') [] []]]
       []"

text \<open>
  The two mappings of a categorical feature to an index, as the notebook constructs
  them:
  \<^verbatim>\<open>
  movie_title_lookup = tf.keras.layers.experimental.preprocessing.StringLookup()
  num_hashing_bins = 200_000
  movie_title_hashing = tf.keras.layers.experimental.preprocessing.Hashing(
      num_bins=num_hashing_bins
  )
  \<close>
\<close>

definition num_hashing_bins :: nat where
  "num_hashing_bins = 200000"

definition movie_title_lookup_expr :: expr where
  "movie_title_lookup_expr = Call (keras_preprocessing ''StringLookup'') [] []"

definition movie_title_hashing_expr :: expr where
  "movie_title_hashing_expr =
     Call (keras_preprocessing ''Hashing'') [] [(''num_bins'', Name ''num_hashing_bins'')]"

text \<open>
  A layer with its configuration. \<open>StringLookup n\<close> has \<open>n\<close> out-of-vocabulary
  indices; the constructor's default, which the notebook takes, is one.
\<close>

datatype layer =
    TextVectorization nat
  | Embedding nat nat bool
  | GlobalAveragePooling1D
  | StringLookup nat
  | Hashing nat
  | Unknown string

text \<open>
  An integer argument of a layer: a literal, or one of the two variables the notebook
  assigns a literal to just before.
\<close>

definition num_of :: "expr \<Rightarrow> nat" where
  "num_of e =
     (case e of
        Num n \<Rightarrow> nat n
      | Name x \<Rightarrow>
          if x = ''max_tokens'' then max_tokens
          else if x = ''num_hashing_bins'' then num_hashing_bins
          else 0
      | _ \<Rightarrow> 0)"

definition layer_of :: "expr \<Rightarrow> layer" where
  "layer_of e =
     (case e of
        Call f args kw \<Rightarrow>
          if callee f = ''TextVectorization''
          then (case map_of kw ''max_tokens'' of
                  Some m \<Rightarrow> TextVectorization (num_of m)
                | None \<Rightarrow> Unknown (callee f))
          else if callee f = ''Embedding''
          then (case args of
                  [i, d] \<Rightarrow> Embedding (num_of i) (num_of d) (map_of kw ''mask_zero'' = Some (Bool True))
                | _ \<Rightarrow> Unknown (callee f))
          else if callee f = ''GlobalAveragePooling1D'' \<and> args = [] \<and> kw = []
          then GlobalAveragePooling1D
          else if callee f = ''StringLookup'' \<and> args = [] \<and> kw = []
          then StringLookup 1
          else if callee f = ''Hashing''
          then (case map_of kw ''num_bins'' of
                  Some b \<Rightarrow> Hashing (num_of b)
                | None \<Rightarrow> Unknown (callee f))
          else Unknown (callee f)
      | _ \<Rightarrow> Unknown [])"

definition sequential_layers :: "expr \<Rightarrow> layer list" where
  "sequential_layers e =
     (case e of
        Call f [ListE ls] kw \<Rightarrow> if callee f = ''Sequential'' then map layer_of ls else []
      | _ \<Rightarrow> [])"

text \<open>
  Modelled from the spec: the three Keras layers themselves (text tokenization with a
  learned vocabulary, embedding, averaging) are TensorFlow's code, none of it in the
  repository; each is modelled from its Keras documentation, with what is learned (the
  vocabulary of \<open>adapt\<close>, the embedding table) as a parameter. Numbers are reals: the
  rounding of float32 is left out, and the one float that is not a number, NaN, is a
  value of its own.

  \<open>TextVectorization\<close> with its defaults lowercases the text, strips punctuation,
  splits on whitespace and maps each token to its index in the vocabulary: 0 is the
  padding, 1 stands for every token outside the vocabulary, and the learned tokens
  start at 2; the vocabulary holds at most \<open>max_tokens - 2\<close> learned tokens. In a batch
  the shorter sequences are padded with 0.
\<close>

definition lower :: "char \<Rightarrow> char" where
  "lower c =
     (case map_of (zip ''ABCDEFGHIJKLMNOPQRSTUVWXYZ'' ''abcdefghijklmnopqrstuvwxyz'') c of
        Some d \<Rightarrow> d
      | None \<Rightarrow> c)"

definition punctuation :: "char list" where
  "punctuation =
     [CHR 0x21, CHR 0x22, CHR 0x23, CHR 0x24, CHR 0x25, CHR 0x26, CHR 0x27, CHR 0x28,
      CHR 0x29, CHR 0x2A, CHR 0x2B, CHR 0x2C, CHR 0x2D, CHR 0x2E, CHR 0x2F, CHR 0x3A,
      CHR 0x3B, CHR 0x3C, CHR 0x3D, CHR 0x3E, CHR 0x3F, CHR 0x40, CHR 0x5B, CHR 0x5C,
      CHR 0x5D, CHR 0x5E, CHR 0x5F, CHR 0x60, CHR 0x7B, CHR 0x7C, CHR 0x7D, CHR 0x7E]"

definition whitespace :: "char list" where
  "whitespace = [CHR 0x20, CHR 0x09, CHR 0x0A, CHR 0x0D]"

definition standardize :: "string \<Rightarrow> string" where
  "standardize s = filter (\<lambda>c. c \<notin> set punctuation) (map lower s)"

fun split_ws :: "string \<Rightarrow> string \<Rightarrow> string list" where
  "split_ws [] cur = (if cur = [] then [] else [cur])"
| "split_ws (c # cs) cur =
     (if c \<in> set whitespace
      then (if cur = [] then split_ws cs [] else cur # split_ws cs [])
      else split_ws cs (cur @ [c]))"

definition tokens :: "string \<Rightarrow> string list" where
  "tokens s = split_ws (standardize s) []"

fun position :: "'a \<Rightarrow> 'a list \<Rightarrow> nat option" where
  "position x [] = None"
| "position x (y # ys) =
     (if x = y then Some 0 else (case position x ys of Some i \<Rightarrow> Some (Suc i) | None \<Rightarrow> None))"

definition token_index :: "nat \<Rightarrow> string list \<Rightarrow> string \<Rightarrow> nat" where
  "token_index mt vocab t =
     (case position t (take (mt - 2) vocab) of Some i \<Rightarrow> i + 2 | None \<Rightarrow> 1)"

definition vectorize :: "nat \<Rightarrow> string list \<Rightarrow> nat \<Rightarrow> string \<Rightarrow> nat list" where
  "vectorize mt vocab pad s = map (token_index mt vocab) (tokens s) @ replicate pad 0"

text \<open>
  \<open>Embedding(input_dim, output_dim, mask_zero=True)\<close> replaces each index by its row
  of the table and masks the steps whose index is 0. \<open>GlobalAveragePooling1D\<close> under a
  mask multiplies each step by its mask, sums over the steps and divides by the sum of
  the mask; with no step left the division is 0/0, which in floating point is NaN.
\<close>

datatype tensor =
    TText string
  | TIds "nat list"
  | TSeq nat "(real list \<times> bool) list"
  | TVec "real list"
  | TNaN
  | TError

definition embed :: "(nat \<Rightarrow> real list) \<Rightarrow> nat \<Rightarrow> nat \<Rightarrow> bool \<Rightarrow> nat list \<Rightarrow> tensor" where
  "embed table idim odim mz ids =
     (if list_all (\<lambda>i. i < idim) ids
      then TSeq odim (map (\<lambda>i. (table i, (if mz then i \<noteq> 0 else True))) ids)
      else TError)"

definition times_mask :: "real list \<times> bool \<Rightarrow> real list" where
  "times_mask p = map (\<lambda>x. x * (if snd p then 1 else 0)) (fst p)"

definition sum_steps :: "nat \<Rightarrow> real list list \<Rightarrow> real list" where
  "sum_steps d vs = foldr (\<lambda>v acc. map2 (+) v acc) vs (replicate d 0)"

definition pool :: "nat \<Rightarrow> (real list \<times> bool) list \<Rightarrow> tensor" where
  "pool d xs =
     (let n = length (filter snd xs)
      in if n = 0 then TNaN
         else TVec (map (\<lambda>x. x / real n) (sum_steps d (map times_mask xs))))"

definition apply_layer ::
  "string list \<Rightarrow> (nat \<Rightarrow> real list) \<Rightarrow> nat \<Rightarrow> layer \<Rightarrow> tensor \<Rightarrow> tensor" where
  "apply_layer vocab table pad l t =
     (case (l, t) of
        (TextVectorization mt, TText s) \<Rightarrow> TIds (vectorize mt vocab pad s)
      | (Embedding idim odim mz, TIds ids) \<Rightarrow> embed table idim odim mz ids
      | (GlobalAveragePooling1D, TSeq d xs) \<Rightarrow> pool d xs
      | _ \<Rightarrow> TError)"

definition title_text_embedding ::
  "string list \<Rightarrow> (nat \<Rightarrow> real list) \<Rightarrow> nat \<Rightarrow> string \<Rightarrow> tensor" where
  "title_text_embedding vocab table pad s =
     fold (apply_layer vocab table pad) (sequential_layers title_text_embedding_expr) (TText s)"

text \<open>
  The claim's words: the mean of the embeddings of the title's words, coordinate by
  coordinate.
\<close>

definition word_ids :: "string list \<Rightarrow> string \<Rightarrow> nat list" where
  "word_ids vocab s = map (token_index max_tokens vocab) (tokens s)"

definition mean_vec :: "nat \<Rightarrow> real list list \<Rightarrow> real list" where
  "mean_vec d vs = map (\<lambda>j. (\<Sum>v\<leftarrow>vs. v ! j) / real (length vs)) [0..<d]"


text \<open>
  Modelled from the spec: the string-to-index lookup and the hashing layer are
  TensorFlow's code, not in the repository; they are modelled from the Keras
  documentation and from what the notebook records of them (the vocabulary printed
  after \<open>adapt\<close> starts \<open>['', '[UNK]', 'Star Wars (1977)']\<close>, and the notebook's text
  says that a value outside the vocabulary is hashed to one of the out-of-vocabulary
  indices). The vocabulary that \<open>adapt\<close> learns and the fingerprint function of the
  hash are parameters.

  \<open>StringLookup\<close> with \<open>n\<close> out-of-vocabulary indices: index 0 is the mask (the empty
  string), the indices 1 to \<open>n\<close> are shared by the values outside the vocabulary, each
  hashed to one of them, and the learned values follow. With no out-of-vocabulary index
  such a value has no index, and the layer fails. \<open>Hashing\<close> maps a value to its
  fingerprint modulo the number of bins.
\<close>

definition string_lookup ::
  "nat \<Rightarrow> (string \<Rightarrow> nat) \<Rightarrow> string list \<Rightarrow> string \<Rightarrow> nat option" where
  "string_lookup n fp vocab s =
     (if s = [] then Some 0
      else case position s vocab of
        Some i \<Rightarrow> Some (i + 1 + n)
      | None \<Rightarrow> if n = 0 then None else Some (1 + fp s mod n))"

definition hashing :: "nat \<Rightarrow> (string \<Rightarrow> nat) \<Rightarrow> string \<Rightarrow> nat option" where
  "hashing bins fp s = (if bins = 0 then None else Some (fp s mod bins))"

definition categorical_index ::
  "layer \<Rightarrow> (string \<Rightarrow> nat) \<Rightarrow> string list \<Rightarrow> string \<Rightarrow> nat option" where
  "categorical_index l fp vocab s =
     (case l of
        StringLookup n \<Rightarrow> string_lookup n fp vocab s
      | Hashing bins \<Rightarrow> hashing bins fp s
      | _ \<Rightarrow> None)"

definition movie_title_lookup :: "(string \<Rightarrow> nat) \<Rightarrow> string list \<Rightarrow> string \<Rightarrow> nat option" where
  "movie_title_lookup fp vocab s = categorical_index (layer_of movie_title_lookup_expr) fp vocab s"

definition movie_title_hashing :: "(string \<Rightarrow> nat) \<Rightarrow> string \<Rightarrow> nat option" where
  "movie_title_hashing fp s = categorical_index (layer_of movie_title_hashing_expr) fp [] s"

text \<open>The size of the lookup's vocabulary: the mask, the unknown token, the learned values.\<close>

definition vocab_size :: "string list \<Rightarrow> nat" where
  "vocab_size vocab = length vocab + 2"

section \<open>Lemmas on runs\<close>

lemmas sem = run_cell_def lookup_def bind_def unbind_def call_def consult_def get_attr_def
  get_item_def bin_op_def matches_def

lemmas dag_cells = cell_dag_def cell_init_def cell_process_def cell_process_upstream_def
  cell_estimator_def cell_train_def cell_train_upstream_def cell_model_def
  cell_model_upstream_def cell_deploy_def cell_deploy_upstream_def cell_dependencies_def

lemmas s3_cells = cell_create_bucket_def cell_paths_def cell_flag_def cell_default_bucket_def
  cell_store_paths_def cell_list_bucket_def cell_head_bucket_def cell_store_flag_def

lemmas s3_vals = head_bucket_call_def create_bucket_call_def put_block_call_def all_blocked_def
  s3_v_def bucket_v_def region_v_def session_v_def account_id_v_def

lemmas iam_cells = cell_iam_client_def cell_assume_role_policy_doc_def cell_role_name_def
  body_create_role_def cell_create_role_def cell_role_arn_def cell_print_role_arn_def
  cell_get_role_def cell_redshift_to_s3_def cell_redshift_to_athena_def
  body_create_policy_s3_def cell_create_policy_s3_def cell_policy_s3_arn_def
  body_create_policy_athena_def cell_create_policy_athena_def cell_policy_athena_arn_def
  body_attach_athena_def cell_attach_athena_def body_attach_s3_def cell_attach_s3_def
  guarded_def on_client_error_def

lemmas site_defs = notebook_sites_def cell_sites_def callee_def exists_handler_def

lemma run_cell_Markdown: "run_cell w Markdown k = (None, k)"
  by (simp add: run_cell_def)

lemma fst_run_cells_Cons:
  "fst (run_cells w (c # cs) k) = fst (run_cell w c k) # fst (run_cells w cs (snd (run_cell w c k)))"
  by (simp split: prod.splits)

lemma snd_run_cells_Cons:
  "snd (run_cells w (c # cs) k) = snd (run_cells w cs (snd (run_cell w c k)))"
  by (simp split: prod.splits)

text \<open>A property that every cell of a notebook preserves holds after the run.\<close>

lemma run_cells_invariant:
  assumes "\<And>c k. c \<in> set cs \<Longrightarrow> P k \<Longrightarrow> P (snd (run_cell w c k))" and "P k"
  shows "P (snd (run_cells w cs k))"
  using assms
proof (induction cs arbitrary: k)
  case Nil
  then show ?case by simp
next
  case (Cons c cs)
  have "P (snd (run_cell w c k))"
    using Cons.prems by simp
  then have "P (snd (run_cells w cs (snd (run_cell w c k))))"
    using Cons.IH Cons.prems(1) by simp
  then show ?case
    by (simp only: snd_run_cells_Cons)
qed

text \<open>... and every cell runs in a kernel that has the property.\<close>

lemma run_cells_result:
  assumes "\<And>c k. c \<in> set cs \<Longrightarrow> P k \<Longrightarrow> P (snd (run_cell w c k))" and "P k"
    and "i < length cs"
  shows "\<exists>k'. P k' \<and> fst (run_cells w cs k) ! i = fst (run_cell w (cs ! i) k')"
  using assms
proof (induction cs arbitrary: k i)
  case Nil
  then show ?case by simp
next
  case (Cons c cs)
  show ?case
  proof (cases i)
    case 0
    then show ?thesis
      using Cons.prems(2) by (auto simp only: fst_run_cells_Cons nth_Cons_0)
  next
    case (Suc j)
    have "P (snd (run_cell w c k))"
      using Cons.prems by simp
    moreover have "j < length cs"
      using Cons.prems(3) Suc by simp
    ultimately obtain k' where "P k'"
      and "fst (run_cells w cs (snd (run_cell w c k))) ! j = fst (run_cell w (cs ! j) k')"
      using Cons.IH [of "snd (run_cell w c k)" j] Cons.prems(1) by auto
    then show ?thesis
      using Suc by (auto simp only: fst_run_cells_Cons nth_Cons_Suc)
  qed
qed

section \<open>The DAG notebook never builds its chain\<close>

lemma unbound_argument:
  "env k b = None \<Longrightarrow> b \<noteq> ''print'' \<Longrightarrow>
   \<exists>x. eval w (Call (Attr (Name a) m) [Name b] []) k = (Inl x, k)"
  by (cases "lookup k a"; cases "get_attr (projr (lookup k a)) m") (simp_all add: lookup_def)

lemma stuck_fresh: "stuck fresh"
  by (simp add: stuck_def fresh_def dag_edges_def)

lemma stuck_dag: "stuck k \<Longrightarrow> stuck (snd (run_cell w cell_dag k))"
  by (simp add: cell_dag_def sem stuck_def dag_edges_def edge_of_def split: option.splits)

lemma stuck_init:
  "stuck k \<Longrightarrow> run_cell w cell_init k = (Some (NameError ''DummyOperator''), k)"
  by (simp add: cell_init_def sem stuck_def)

lemma process_raises:
  "env k ''estimator'' = None \<Longrightarrow> fst (run_cell w cell_process k) \<noteq> None"
  by (simp add: cell_process_def sem split: option.splits)

lemma stuck_process: "stuck k \<Longrightarrow> stuck (snd (run_cell w cell_process k))"
  by (simp add: cell_process_def sem stuck_def dag_edges_def split: option.splits)

lemma stuck_process_upstream:
  "stuck k \<Longrightarrow> run_cell w cell_process_upstream k = (Some (NameError ''process_op''), k)"
  by (simp add: cell_process_upstream_def run_cell_def stuck_def lookup_def)

lemma stuck_estimator: "stuck k \<Longrightarrow> stuck (snd (run_cell w cell_estimator k))"
  by (simp add: cell_estimator_def sem stuck_def dag_edges_def split: option.splits)

lemma stuck_train: "stuck k \<Longrightarrow> stuck (snd (run_cell w cell_train k))"
  by (simp add: cell_train_def sem stuck_def dag_edges_def split: option.splits)

lemma stuck_train_upstream:
  "stuck k \<Longrightarrow> run_cell w cell_train_upstream k = (Some (NameError ''train_op''), k)"
  by (simp add: cell_train_upstream_def run_cell_def stuck_def lookup_def)

lemma stuck_model: "stuck k \<Longrightarrow> stuck (snd (run_cell w cell_model k))"
  by (simp add: cell_model_def sem stuck_def dag_edges_def edge_of_def split: option.splits)

lemma stuck_model_upstream:
  assumes "stuck k"
  shows "\<exists>x. run_cell w cell_model_upstream k = (Some x, k)"
proof -
  from assms have "env k ''train_op'' = None"
    by (simp add: stuck_def)
  from unbound_argument [OF this, of w "''model_op''" "''set_upstream''"]
  obtain x where
    "eval w (Call (Attr (Name ''model_op'') ''set_upstream'') [Name ''train_op''] []) k = (Inl x, k)"
    by auto
  then show ?thesis
    by (simp add: cell_model_upstream_def run_cell_def)
qed

lemma deploy_syntax_error: "run_cell w cell_deploy k = (Some SyntaxError, k)"
  by (simp add: cell_deploy_def run_cell_def)

lemma stuck_deploy_upstream:
  "stuck k \<Longrightarrow> run_cell w cell_deploy_upstream k = (Some (NameError ''deploy_op''), k)"
  by (simp add: cell_deploy_upstream_def run_cell_def stuck_def lookup_def)

lemma stuck_dependencies:
  "stuck k \<Longrightarrow> run_cell w cell_dependencies k = (Some (NameError ''init''), k)"
  by (simp add: cell_dependencies_def run_cell_def stuck_def lookup_def)

text \<open>
  Whatever the first statement of the last cell does, the second reads
  \<open>processing_op\<close>, which the first cannot have bound.
\<close>

lemma dependencies_raise:
  assumes u: "env k ''processing_op'' = None"
  shows "fst (run_cell w cell_dependencies k) \<noteq> None"
proof -
  define s1 where
    "s1 = Expr (Call (Attr (Name ''init'') ''set_downstream'') [Name ''process_op''] [])"
  define s2 where
    "s2 = Expr (Call (Attr (Name ''processing_op'') ''set_downstream'') [Name ''train_op''] [])"
  define rest where "rest =
     [Expr (Call (Attr (Name ''train_op'') ''set_downstream'') [Name ''model_op''] []),
      Expr (Call (Attr (Name ''model_op'') ''set_downstream'') [Name ''deploy_op''] [])]"
  have run: "run_cell w cell_dependencies k = exec_block w (s1 # s2 # rest) k"
    by (simp add: cell_dependencies_def run_cell_def s1_def s2_def rest_def)
  obtain r k1 where e1: "exec w s1 k = (r, k1)"
    by (cases "exec w s1 k") auto
  show ?thesis
  proof (cases r)
    case None
    have "env k1 = env k"
      using e1 unfolding s1_def
      by (auto simp add: sem split: option.splits sum.splits prod.splits if_splits val.splits)
    with u have "exec w s2 k1 = (Some (NameError ''processing_op''), k1)"
      by (simp add: s2_def lookup_def)
    with e1 None show ?thesis
      unfolding run by (simp del: exec.simps)
  next
    case (Some a)
    with e1 show ?thesis
      unfolding run by (simp del: exec.simps)
  qed
qed

lemma stuck_step: "c \<in> set dag_notebook \<Longrightarrow> stuck k \<Longrightarrow> stuck (snd (run_cell w c k))"
  using stuck_dag [of k w] stuck_init [of k w] stuck_process [of k w]
    stuck_process_upstream [of k w] stuck_estimator [of k w] stuck_train [of k w]
    stuck_train_upstream [of k w] stuck_model [of k w] stuck_model_upstream [of k w]
    deploy_syntax_error [of w k] stuck_deploy_upstream [of k w] stuck_dependencies [of k w]
  by (auto simp add: dag_notebook_def run_cell_Markdown)

lemma chain_not_empty: "set chain \<noteq> set []"
  by (simp add: chain_def)

text \<open>
  C1 (the code does not do this). The claim: the five tasks start, process, train, model
  and deploy are wired into a linear chain, each task's sole upstream task being its
  predecessor, and the dependency cells establish exactly this chain. On the code: run
  top to bottom in a fresh kernel with every library call returning, ten of the
  twelve code cells raise and no edge is ever set, so the DAG has none of the four
  edges of the chain.
\<close>

theorem dag_chain_not_built:
  "case run_cells quiet dag_notebook fresh of
     (rs, k) \<Rightarrow>
       rs = [None, None, None, Some (NameError ''DummyOperator''),
             None, Some (NameError ''estimator''), Some (NameError ''process_op''),
             None, Some (NameError ''role''), Some (NameError ''estimator''),
             Some (NameError ''train_op''),
             None, None, Some (NameError ''train_op''),
             None, Some SyntaxError, Some (NameError ''deploy_op''),
             None, Some (NameError ''init'')] \<and>
       dag_edges k = [] \<and> set (dag_edges k) \<noteq> set chain"
  by (simp add: dag_notebook_def dag_cells sem quiet_def fresh_def dag_edges_def edge_of_def
      chain_def)

lemma operator_sites_dag:
  "operator_sites dag_notebook =
     [(''SageMakerProcessingOperator'', Some (Str ''process''), Some (Bool True)),
      (''SageMakerTrainingOperator'', Some (Str ''train''), Some (Bool True)),
      (''SageMakerModelOperator'', Some (Str ''model''), Some (Bool True)),
      (''SageMakerEndpointOperator'', Some (Str ''deploy''), Some (Bool True))]"
  by (simp add: operator_sites_def sagemaker_operators_def site_defs dag_notebook_def dag_cells)

lemmas operator_defs = only_model_def constructed_operators_def is_operator_def wait_of_def
  task_id_of_def sagemaker_operators_def

lemma only_model_fresh: "only_model fresh"
  using stuck_fresh by (simp add: only_model_def constructed_operators_def fresh_def)

lemma only_model_dag: "only_model k \<Longrightarrow> only_model (snd (run_cell w cell_dag k))"
  by (simp add: operator_defs cell_dag_def sem stuck_def dag_edges_def edge_of_def link_def
      split: option.splits)

lemma only_model_process: "only_model k \<Longrightarrow> only_model (snd (run_cell w cell_process k))"
  by (simp add: operator_defs cell_process_def sem stuck_def dag_edges_def edge_of_def link_def
      split: option.splits)

lemma only_model_estimator: "only_model k \<Longrightarrow> only_model (snd (run_cell w cell_estimator k))"
  by (simp add: operator_defs cell_estimator_def sem stuck_def dag_edges_def edge_of_def link_def
      split: option.splits)

lemma only_model_train: "only_model k \<Longrightarrow> only_model (snd (run_cell w cell_train k))"
  by (simp add: operator_defs cell_train_def sem stuck_def dag_edges_def edge_of_def link_def
      split: option.splits)

lemma only_model_model: "only_model k \<Longrightarrow> only_model (snd (run_cell w cell_model k))"
  by (simp add: operator_defs cell_model_def sem stuck_def dag_edges_def edge_of_def link_def
      split: option.splits)

lemma only_model_step:
  "c \<in> set dag_notebook \<Longrightarrow> only_model k \<Longrightarrow> only_model (snd (run_cell w c k))"
  using only_model_dag [of k w] only_model_process [of k w] only_model_estimator [of k w]
    only_model_train [of k w] only_model_model [of k w]
    stuck_init [of k w] stuck_process_upstream [of k w] stuck_train_upstream [of k w]
    stuck_model_upstream [of k w] deploy_syntax_error [of w k] stuck_deploy_upstream [of k w]
    stuck_dependencies [of k w]
  by (auto simp add: dag_notebook_def run_cell_Markdown only_model_def)

lemma quiet_run_constructs:
  "case run_cells quiet dag_notebook fresh of
     (rs, k) \<Rightarrow> constructed_operators k = [(Some ''model'', Some (VBool True))]"
  by (simp add: dag_notebook_def dag_cells sem quiet_def fresh_def constructed_operators_def
      is_operator_def wait_of_def task_id_of_def sagemaker_operators_def)

text \<open>
  C4 (the code does not do this). The claim: each of the four SageMaker operator nodes
  (process, train, model, deploy) is constructed with \<open>wait_for_completion\<close> true. The
  text of the notebook passes the flag at all four constructions, but three of them
  never run: in a fresh kernel with every library call returning, the only operator
  constructed is the one of the task \<open>model\<close>; whatever the libraries do, no other
  operator is ever constructed; and in any kernel the cell of the endpoint operator
  fails to compile, so the task \<open>deploy\<close> cannot be constructed at all.
\<close>

theorem operators_not_all_constructed:
  "operator_sites dag_notebook =
     [(''SageMakerProcessingOperator'', Some (Str ''process''), Some (Bool True)),
      (''SageMakerTrainingOperator'', Some (Str ''train''), Some (Bool True)),
      (''SageMakerModelOperator'', Some (Str ''model''), Some (Bool True)),
      (''SageMakerEndpointOperator'', Some (Str ''deploy''), Some (Bool True))] \<and>
   constructed_operators (snd (run_cells quiet dag_notebook fresh)) =
     [(Some ''model'', Some (VBool True))] \<and>
   list_all (\<lambda>p. p = (Some ''model'', Some (VBool True)))
     (constructed_operators (snd (run_cells w dag_notebook fresh))) \<and>
   run_cell w cell_deploy k = (Some SyntaxError, k)"
proof -
  have "only_model (snd (run_cells w dag_notebook fresh))"
    using run_cells_invariant [of dag_notebook only_model w fresh, OF only_model_step
        only_model_fresh] .
  then have "list_all (\<lambda>p. p = (Some ''model'', Some (VBool True)))
      (constructed_operators (snd (run_cells w dag_notebook fresh)))"
    by (simp add: only_model_def)
  with operator_sites_dag quiet_run_constructs deploy_syntax_error [of w k] show ?thesis
    by (simp add: case_prod_beta)
qed

text \<open>
  C9. Run top to bottom in a fresh kernel, whatever the libraries do, the DAG notebook
  never builds the chain: the cell of the processing operator (cell 5), the cell of the
  endpoint operator (cell 15) and the last cell (cell 18) each raise, and no edge is
  set. When every library call returns, the processing cell raises
  \<open>NameError: estimator\<close> (the name is bound by a later cell only), the endpoint cell
  is a syntax error (a trailing comma in its import), and the last cell raises a
  \<open>NameError\<close>. In any kernel at all, the processing cell raises when \<open>estimator\<close> is
  unbound, and the last cell raises when \<open>processing_op\<close> is unbound, the name no
  cell binds (the operator is bound as \<open>process_op\<close>).
\<close>

theorem dag_notebook_never_completes:
  "(case run_cells w dag_notebook fresh of
      (rs, k) \<Rightarrow>
        rs ! 5 \<noteq> None \<and> rs ! 15 = Some SyntaxError \<and> rs ! 18 \<noteq> None \<and>
        dag_edges k = [] \<and> set (dag_edges k) \<noteq> set chain) \<and>
   (case run_cells quiet dag_notebook fresh of
      (rs, k) \<Rightarrow>
        rs ! 5 = Some (NameError ''estimator'') \<and> rs ! 15 = Some SyntaxError \<and>
        rs ! 18 = Some (NameError ''init'')) \<and>
   (env k ''estimator'' = None \<longrightarrow> fst (run_cell w cell_process k) \<noteq> None) \<and>
   (env k ''processing_op'' = None \<longrightarrow> fst (run_cell w cell_dependencies k) \<noteq> None) \<and>
   \<not> list_all syntax_ok
       [FromImport ''sagemaker.workflow.airflow'' [''endpoint_config''] True False]"
proof -
  have inv: "\<And>c k. c \<in> set dag_notebook \<Longrightarrow> stuck k \<Longrightarrow> stuck (snd (run_cell w c k))"
    by (rule stuck_step)
  have len: "length dag_notebook = 19"
    by (simp add: dag_notebook_def)
  have a: "fst (run_cells w dag_notebook fresh) ! 5 \<noteq> None"
    using run_cells_result [of dag_notebook stuck w fresh 5, OF inv stuck_fresh] process_raises
    by (auto simp add: dag_notebook_def stuck_def)
  have b: "fst (run_cells w dag_notebook fresh) ! 15 = Some SyntaxError"
    using run_cells_result [of dag_notebook stuck w fresh 15, OF inv stuck_fresh]
      deploy_syntax_error
    by (auto simp add: dag_notebook_def)
  have c: "fst (run_cells w dag_notebook fresh) ! 18 \<noteq> None"
    using run_cells_result [of dag_notebook stuck w fresh 18, OF inv stuck_fresh]
      stuck_dependencies
    by (auto simp add: dag_notebook_def)
  have "stuck (snd (run_cells w dag_notebook fresh))"
    using run_cells_invariant [of dag_notebook stuck w fresh, OF inv stuck_fresh] .
  then have d: "dag_edges (snd (run_cells w dag_notebook fresh)) = []"
    by (simp add: stuck_def)
  have e: "case run_cells quiet dag_notebook fresh of
      (rs, k) \<Rightarrow>
        rs ! 5 = Some (NameError ''estimator'') \<and> rs ! 15 = Some SyntaxError \<and>
        rs ! 18 = Some (NameError ''init'')"
    by (simp add: dag_notebook_def dag_cells sem quiet_def fresh_def)
  from a b c d chain_not_empty e process_raises [of k w] dependencies_raise [of k w]
  show ?thesis
    by (simp add: case_prod_beta)
qed

theorem dag_notebook_never_completes_witness:
  "env fresh ''estimator'' = None \<and> fst (run_cell quiet cell_process fresh) \<noteq> None \<and>
   env fresh ''processing_op'' = None \<and> fst (run_cell quiet cell_dependencies fresh) \<noteq> None"
proof -
  have h: "env fresh ''estimator'' = None" "env fresh ''processing_op'' = None"
    by (simp_all add: fresh_def)
  with dag_notebook_never_completes [of quiet fresh] show ?thesis
    by simp
qed

section \<open>The bucket notebook, cell by cell\<close>

lemma run_cell_CellMagic: "run_cell w (CellMagic s) k = (None, k)"
  by (simp add: run_cell_def)

lemma run_cell_empty: "run_cell w (Code []) k = (None, k)"
  by (simp add: run_cell_def)

text \<open>The kernel the first cell leaves, whatever the libraries do.\<close>

lemma create_bucket_leaves:
  "case run_cell w cell_create_bucket fresh of
     (r, k) \<Rightarrow>
       env k ''print'' = None \<and> env k ''setup_s3_bucket_passed'' = None \<and> out k = [] \<and>
       (env k ''airflow_bucket_name'' = None \<or> env k ''airflow_bucket_name'' = Some bucket_v) \<and>
       (env k ''s3'' = None \<and> s3_calls k = [] \<or>
        env k ''s3'' = Some s3_v \<and> env k ''airflow_bucket_name'' = Some bucket_v \<and>
        (map fst (s3_calls k) = [create_bucket_call] \<or>
         map fst (s3_calls k) = [create_bucket_call, put_block_call])) \<and>
       (r = None \<longrightarrow>
          env k ''s3'' = Some s3_v \<and> env k ''airflow_bucket_name'' = Some bucket_v \<and>
          s3_calls k = [(create_bucket_call, None), (put_block_call, None)])"
  by (simp add: cell_create_bucket_def sem fresh_def s3_vals s3_calls_def on_s3_def
      is_s3_client_def split: option.splits)

lemma paths_core:
  "env k ''print'' = None \<Longrightarrow> s3_core (snd (run_cell w cell_paths k)) = s3_core k"
  by (simp add: cell_paths_def sem s3_core_def error_lines_def is_error_line_def
      split: option.splits)

lemma flag_core:
  "run_cell w cell_flag k = (None, bind ''setup_s3_bucket_passed'' (VBool False) k)"
  by (simp add: cell_flag_def sem)

lemma default_bucket_core:
  "env k ''print'' = None \<Longrightarrow>
   s3_core (snd (run_cell w cell_default_bucket k)) = s3_core k"
  by (simp add: cell_default_bucket_def sem s3_core_def error_lines_def is_error_line_def
      split: option.splits)

lemma store_paths_core: "s3_core (snd (run_cell w cell_store_paths k)) = s3_core k"
  by (simp add: cell_store_paths_def sem s3_core_def error_lines_def split: option.splits)

lemma list_bucket_core:
  "run_cell w cell_list_bucket k = (None, k\<lparr>shell := shell k @ [''aws s3 ls $s3_mwaa_private_path'']\<rparr>)"
  by (simp add: cell_list_bucket_def sem)

lemma store_flag_core:
  "s3_core (snd (run_cell w cell_store_flag k)) = s3_core k \<and>
   out (snd (run_cell w cell_store_flag k)) = out k"
  by (simp add: cell_store_flag_def sem s3_core_def error_lines_def split: option.splits)

text \<open>
  The cell that checks the bucket, in a kernel in which \<open>print\<close> is the builtin: when
  the S3 client and the bucket name are bound and the import succeeds it makes the one
  call \<open>head_bucket\<close>; the flag is set exactly when that call returns; the handler's
  line is printed exactly when the call raises a \<open>ClientError\<close>.
\<close>

lemma head_bucket_cell:
  assumes "env k ''print'' = None"
    and "env k ''s3'' = Some s3_v" and "env k ''airflow_bucket_name'' = Some bucket_v"
  shows "case run_cell w cell_head_bucket k of
     (r, k') \<Rightarrow>
       (case w (VExt ''botocore.client'') of
          Some x \<Rightarrow> r = Some x \<and> calls k' = calls k \<and> error_lines k' = error_lines k \<and>
            env k' ''setup_s3_bucket_passed'' = env k ''setup_s3_bucket_passed''
        | None \<Rightarrow>
            calls k' = calls k @ [(head_bucket_call, w head_bucket_call)] \<and>
            (case w head_bucket_call of
               None \<Rightarrow> r = None \<and> env k' ''setup_s3_bucket_passed'' = Some (VBool True) \<and>
                 error_lines k' = error_lines k
             | Some (ClientError c) \<Rightarrow> r = None \<and>
                 env k' ''setup_s3_bucket_passed'' = env k ''setup_s3_bucket_passed'' \<and>
                 error_lines k' = error_lines k @ [head_error_line (ClientError c)]
             | Some x \<Rightarrow> r = Some x \<and>
                 env k' ''setup_s3_bucket_passed'' = env k ''setup_s3_bucket_passed'' \<and>
                 error_lines k' = error_lines k))"
  using assms
  by (simp add: cell_head_bucket_def sem head_bucket_call_def head_error_line_def s3_v_def
      error_lines_def is_error_line_def split: option.splits exn.splits)

lemma head_bucket_cell_unbound:
  assumes "env k ''s3'' = None \<or> env k ''airflow_bucket_name'' = None"
    and "env k ''airflow_bucket_name'' = None \<or> env k ''airflow_bucket_name'' = Some bucket_v"
    and "env k ''s3'' = None \<or> env k ''s3'' = Some s3_v"
  shows "case run_cell w cell_head_bucket k of
     (r, k') \<Rightarrow>
       r \<noteq> None \<and> calls k' = calls k \<and> error_lines k' = error_lines k \<and>
       env k' ''setup_s3_bucket_passed'' = env k ''setup_s3_bucket_passed''"
  using assms
  by (auto simp add: cell_head_bucket_def sem s3_v_def error_lines_def
      split: option.splits exn.splits)

lemma on_s3_head: "on_s3 (head_bucket_call, r)"
  by (simp add: on_s3_def is_s3_client_def s3_vals)

lemma head_not_before:
  assumes "map fst (s3_calls k) = [] \<or> map fst (s3_calls k) = [create_bucket_call] \<or>
           map fst (s3_calls k) = [create_bucket_call, put_block_call]"
  shows "(head_bucket_call, r) \<notin> set (calls k)"
proof
  assume "(head_bucket_call, r) \<in> set (calls k)"
  then have "(head_bucket_call, r) \<in> set (s3_calls k)"
    by (simp add: s3_calls_def on_s3_head)
  then have "head_bucket_call \<in> set (map fst (s3_calls k))"
    by force
  with assms show False
    by (auto simp add: head_bucket_call_def create_bucket_call_def put_block_call_def)
qed

lemma s3_notebook_run:
  assumes "k1 = snd (run_cell w cell_create_bucket fresh)"
    and "k2 = snd (run_cell w cell_paths k1)"
    and "k3 = snd (run_cell w cell_flag k2)"
    and "k4 = snd (run_cell w cell_default_bucket k3)"
    and "k5 = snd (run_cell w cell_store_paths k4)"
    and "k7 = snd (run_cell w cell_list_bucket k5)"
    and "k8 = snd (run_cell w cell_head_bucket k7)"
    and "k9 = snd (run_cell w cell_store_flag k8)"
  shows "run_cells w s3_notebook fresh =
     ([None, fst (run_cell w cell_create_bucket fresh), fst (run_cell w cell_paths k1),
       fst (run_cell w cell_flag k2), fst (run_cell w cell_default_bucket k3),
       fst (run_cell w cell_store_paths k4), None, fst (run_cell w cell_list_bucket k5),
       fst (run_cell w cell_head_bucket k7), fst (run_cell w cell_store_flag k8),
       None, None, None, None], k9)"
  unfolding assms
  by (simp add: s3_notebook_def run_cell_Markdown run_cell_CellMagic run_cell_empty
      split: prod.splits)

text \<open>
  The run of the bucket notebook, whatever the libraries do: the flag, the calls on the
  S3 client, what the cell of \<open>head_bucket\<close> raises and prints, and the calls made
  after the first cell.
\<close>

lemma bucket_run:
  "case run_cells w s3_notebook fresh of
     (rs, k) \<Rightarrow>
       env k ''setup_s3_bucket_passed'' =
         Some (VBool ((head_bucket_call, None) \<in> set (calls k))) \<and>
       map fst (s3_calls k) \<in>
         set [[], [create_bucket_call], [create_bucket_call, put_block_call],
              [create_bucket_call, head_bucket_call],
              [create_bucket_call, put_block_call, head_bucket_call]] \<and>
       (\<forall>x. (head_bucket_call, Some x) \<in> set (calls k) \<longrightarrow>
          (case x of
             ClientError c \<Rightarrow> rs ! 8 = None \<and> error_lines k = [head_error_line x]
           | _ \<Rightarrow> rs ! 8 = Some x \<and> error_lines k = [])) \<and>
       ((head_bucket_call, None) \<in> set (calls k) \<longrightarrow> rs ! 8 = None \<and> error_lines k = []) \<and>
       (rs ! 1 = None \<and> w (VExt ''botocore.client'') = None \<longrightarrow>
          s3_calls k =
            [(create_bucket_call, None), (put_block_call, None),
             (head_bucket_call, w head_bucket_call)]) \<and>
       (calls k = calls (snd (run_cell w cell_create_bucket fresh)) \<or>
        calls k = calls (snd (run_cell w cell_create_bucket fresh)) @
          [(head_bucket_call, w head_bucket_call)])"
proof -
  define r1 where "r1 = fst (run_cell w cell_create_bucket fresh)"
  define k1 where "k1 = snd (run_cell w cell_create_bucket fresh)"
  define k2 where "k2 = snd (run_cell w cell_paths k1)"
  define k3 where "k3 = snd (run_cell w cell_flag k2)"
  define k4 where "k4 = snd (run_cell w cell_default_bucket k3)"
  define k5 where "k5 = snd (run_cell w cell_store_paths k4)"
  define k7 where "k7 = snd (run_cell w cell_list_bucket k5)"
  define r8 where "r8 = fst (run_cell w cell_head_bucket k7)"
  define k8 where "k8 = snd (run_cell w cell_head_bucket k7)"
  define k9 where "k9 = snd (run_cell w cell_store_flag k8)"
  note run = s3_notebook_run [OF k1_def k2_def k3_def k4_def k5_def k7_def k8_def k9_def]
  have first:
    "env k1 ''print'' = None" "error_lines k1 = []"
    "env k1 ''airflow_bucket_name'' = None \<or> env k1 ''airflow_bucket_name'' = Some bucket_v"
    "env k1 ''s3'' = None \<and> s3_calls k1 = [] \<or>
     env k1 ''s3'' = Some s3_v \<and> env k1 ''airflow_bucket_name'' = Some bucket_v \<and>
     (map fst (s3_calls k1) = [create_bucket_call] \<or>
      map fst (s3_calls k1) = [create_bucket_call, put_block_call])"
    "r1 = None \<longrightarrow>
       env k1 ''s3'' = Some s3_v \<and> env k1 ''airflow_bucket_name'' = Some bucket_v \<and>
       s3_calls k1 = [(create_bucket_call, None), (put_block_call, None)]"
    using create_bucket_leaves [of w]
    by (simp_all add: case_prod_beta k1_def r1_def error_lines_def)
  have c2: "s3_core k2 = s3_core k1"
    unfolding k2_def using first(1) by (rule paths_core)
  have c3: "k3 = bind ''setup_s3_bucket_passed'' (VBool False) k2"
    unfolding k3_def by (simp add: flag_core)
  have p3: "env k3 ''print'' = None"
    using c2 first(1) by (simp add: c3 bind_def s3_core_def)
  have c4: "s3_core k4 = s3_core k3"
    unfolding k4_def using p3 by (rule default_bucket_core)
  have c5: "s3_core k5 = s3_core k4"
    unfolding k5_def by (rule store_paths_core)
  have c7: "k7 = k5\<lparr>shell := shell k5 @ [''aws s3 ls $s3_mwaa_private_path'']\<rparr>"
    unfolding k7_def by (simp add: list_bucket_core)
  have before:
    "env k7 ''print'' = None" "env k7 ''airflow_bucket_name'' = env k1 ''airflow_bucket_name''"
    "env k7 ''s3'' = env k1 ''s3''" "env k7 ''setup_s3_bucket_passed'' = Some (VBool False)"
    "calls k7 = calls k1" "error_lines k7 = []"
    using c2 c4 c5 first(1,2)
    by (simp_all add: c7 c3 bind_def s3_core_def error_lines_def)
  have last: "s3_core k9 = s3_core k8"
    unfolding k9_def using store_flag_core [of w k8] by simp
  have early: "(head_bucket_call, r) \<notin> set (calls k1)" for r
    using first(4) by (intro head_not_before) auto
  have s3k: "s3_calls k7 = s3_calls k1"
    using before(5) by (simp add: s3_calls_def)
  have k9: "env k9 ''setup_s3_bucket_passed'' = env k8 ''setup_s3_bucket_passed''"
    "calls k9 = calls k8" "error_lines k9 = error_lines k8"
    using last by (simp_all add: s3_core_def)
  have goal: "env k9 ''setup_s3_bucket_passed'' =
         Some (VBool ((head_bucket_call, None) \<in> set (calls k9))) \<and>
       map fst (s3_calls k9) \<in>
         set [[], [create_bucket_call], [create_bucket_call, put_block_call],
              [create_bucket_call, head_bucket_call],
              [create_bucket_call, put_block_call, head_bucket_call]] \<and>
       (\<forall>x. (head_bucket_call, Some x) \<in> set (calls k9) \<longrightarrow>
          (case x of
             ClientError c \<Rightarrow> r8 = None \<and> error_lines k9 = [head_error_line x]
           | _ \<Rightarrow> r8 = Some x \<and> error_lines k9 = [])) \<and>
       ((head_bucket_call, None) \<in> set (calls k9) \<longrightarrow> r8 = None \<and> error_lines k9 = []) \<and>
       (r1 = None \<and> w (VExt ''botocore.client'') = None \<longrightarrow>
          s3_calls k9 =
            [(create_bucket_call, None), (put_block_call, None),
             (head_bucket_call, w head_bucket_call)]) \<and>
       (calls k9 = calls k1 \<or> calls k9 = calls k1 @ [(head_bucket_call, w head_bucket_call)])"
  proof (cases "env k1 ''s3'' = Some s3_v \<and> env k1 ''airflow_bucket_name'' = Some bucket_v")
    case True
    then have b: "env k7 ''s3'' = Some s3_v" "env k7 ''airflow_bucket_name'' = Some bucket_v"
      using before by simp_all
    have sc: "map fst (s3_calls k1) = [create_bucket_call] \<or>
      map fst (s3_calls k1) = [create_bucket_call, put_block_call]"
      using first(4) True by auto
    note h = head_bucket_cell [OF before(1) b, of w, unfolded case_prod_beta,
        folded r8_def k8_def]
    show ?thesis
    proof (cases "w (VExt ''botocore.client'')")
      case (Some x)
      with h have "r8 = Some x" "calls k8 = calls k1" "error_lines k8 = []"
        "env k8 ''setup_s3_bucket_passed'' = Some (VBool False)"
        using before by simp_all
      then have f: "r8 = Some x" "calls k9 = calls k1" "error_lines k9 = []"
        "env k9 ''setup_s3_bucket_passed'' = Some (VBool False)"
        using k9 by simp_all
      have s: "s3_calls k9 = s3_calls k1"
        using f(2) by (simp add: s3_calls_def)
      from sc show ?thesis
        by (auto simp add: f s Some early)
    next
      case None
      with h have cs: "calls k8 = calls k1 @ [(head_bucket_call, w head_bucket_call)]"
        using before by simp
      then have c9: "calls k9 = calls k1 @ [(head_bucket_call, w head_bucket_call)]"
        using k9 by simp
      then have s3c: "s3_calls k9 = s3_calls k1 @ [(head_bucket_call, w head_bucket_call)]"
        by (simp add: s3_calls_def on_s3_head)
      have mem: "(head_bucket_call, r) \<in> set (calls k9) \<longleftrightarrow> r = w head_bucket_call" for r
        using early [of r] by (auto simp add: c9)
      have three: "r1 = None \<longrightarrow>
          s3_calls k9 =
            [(create_bucket_call, None), (put_block_call, None),
             (head_bucket_call, w head_bucket_call)]"
        using first(5) by (simp add: s3c)
      have cl: "calls k9 = calls k1 \<or>
          calls k9 = calls k1 @ [(head_bucket_call, w head_bucket_call)]"
        using c9 by simp
      have order: "map fst (s3_calls k9) \<in>
         set [[], [create_bucket_call], [create_bucket_call, put_block_call],
              [create_bucket_call, head_bucket_call],
              [create_bucket_call, put_block_call, head_bucket_call]]"
        using sc by (auto simp add: s3c)
      show ?thesis
      proof (cases "w head_bucket_call")
        case n: None
        with h None have "r8 = None" "env k8 ''setup_s3_bucket_passed'' = Some (VBool True)"
          "error_lines k8 = []"
          using before by simp_all
        then have f: "r8 = None" "env k9 ''setup_s3_bucket_passed'' = Some (VBool True)"
          "error_lines k9 = []"
          using k9 by simp_all
        from three order cl show ?thesis
          by (simp add: f mem n)
      next
        case (Some x)
        show ?thesis
        proof (cases "\<exists>c. x = ClientError c")
          case True
          then obtain c where x: "x = ClientError c" by blast
          with h None Some have "r8 = None"
            "env k8 ''setup_s3_bucket_passed'' = Some (VBool False)"
            "error_lines k8 = [head_error_line (ClientError c)]"
            using before by simp_all
          then have f: "r8 = None" "env k9 ''setup_s3_bucket_passed'' = Some (VBool False)"
            "error_lines k9 = [head_error_line (ClientError c)]"
            using k9 by simp_all
          from three order cl show ?thesis
            by (simp add: f mem Some x)
        next
          case False
          with h None Some have "r8 = Some x"
            "env k8 ''setup_s3_bucket_passed'' = Some (VBool False)"
            "error_lines k8 = []"
            using before by (simp_all split: exn.splits)
          then have f: "r8 = Some x" "env k9 ''setup_s3_bucket_passed'' = Some (VBool False)"
            "error_lines k9 = []"
            using k9 by simp_all
          from three order cl False show ?thesis
            by (simp add: f mem Some split: exn.splits)
        qed
      qed
    qed
  next
    case False
    then have u: "env k7 ''s3'' = None \<or> env k7 ''airflow_bucket_name'' = None"
      using before first(3,4) by auto
    have v: "env k7 ''airflow_bucket_name'' = None \<or> env k7 ''airflow_bucket_name'' = Some bucket_v"
      "env k7 ''s3'' = None \<or> env k7 ''s3'' = Some s3_v"
      using before first(3,4) by auto
    note h = head_bucket_cell_unbound [OF u v, of w, unfolded case_prod_beta,
        folded r8_def k8_def]
    have sc: "map fst (s3_calls k1) = [] \<or> map fst (s3_calls k1) = [create_bucket_call] \<or>
      map fst (s3_calls k1) = [create_bucket_call, put_block_call]"
      using first(4) by auto
    from h have "calls k8 = calls k1" "error_lines k8 = []"
      "env k8 ''setup_s3_bucket_passed'' = Some (VBool False)"
      using before by simp_all
    then have f: "calls k9 = calls k1" "error_lines k9 = []"
      "env k9 ''setup_s3_bucket_passed'' = Some (VBool False)"
      using k9 by simp_all
    have s: "s3_calls k9 = s3_calls k1"
      using f(1) by (simp add: s3_calls_def)
    have r: "r1 \<noteq> None"
      using first(5) False by auto
    from sc show ?thesis
      by (auto simp add: f s early r)
  qed
  define rs where "rs =
     [None, fst (run_cell w cell_create_bucket fresh), fst (run_cell w cell_paths k1),
      fst (run_cell w cell_flag k2), fst (run_cell w cell_default_bucket k3),
      fst (run_cell w cell_store_paths k4), None, fst (run_cell w cell_list_bucket k5),
      fst (run_cell w cell_head_bucket k7), fst (run_cell w cell_store_flag k8),
      None, None, None, None]"
  have n: "rs ! 1 = r1" "rs ! 8 = r8"
    by (simp_all add: rs_def r1_def r8_def)
  have "run_cells w s3_notebook fresh = (rs, k9)"
    using run by (simp add: rs_def)
  with goal [unfolded n [symmetric]] show ?thesis
    by (simp add: k1_def)
qed


text \<open>
  C10. Whatever the libraries do, every \<open>put_public_access_block\<close> call the notebook
  makes, in the bucket-creation cell or anywhere in a top-to-bottom run, carries the
  configuration with all four settings (BlockPublicAcls, IgnorePublicAcls,
  BlockPublicPolicy, RestrictPublicBuckets) true; and when the bucket-creation cell
  completes, the calls it made on the S3 client are the creation of the bucket followed
  at once by that configuration call on the same bucket, both returned.
\<close>

theorem bucket_public_access_blocked:
  "(case run_cell w cell_create_bucket fresh of
      (r, k) \<Rightarrow>
        list_all (\<lambda>c. pab_config (fst c) = Some all_blocked) (put_calls k) \<and>
        (r = None \<longrightarrow>
           s3_calls k = [(create_bucket_call, None), (put_block_call, None)] \<and>
           map (\<lambda>c. method_of (fst c)) (calls k) =
             [Some ''Session'', Some ''client'', Some ''get_caller_identity'', Some ''get'',
              Some ''Session'', Some ''client'',
              Some ''create_bucket'', Some ''put_public_access_block''])) \<and>
   list_all (\<lambda>c. pab_config (fst c) = Some all_blocked)
     (put_calls (snd (run_cells w s3_notebook fresh))) \<and>
   pab_config put_block_call = Some all_blocked \<and>
   setting all_blocked ''BlockPublicAcls'' = Some (VBool True) \<and>
   setting all_blocked ''IgnorePublicAcls'' = Some (VBool True) \<and>
   setting all_blocked ''BlockPublicPolicy'' = Some (VBool True) \<and>
   setting all_blocked ''RestrictPublicBuckets'' = Some (VBool True)"
proof -
  have cell: "case run_cell w cell_create_bucket fresh of
      (r, k) \<Rightarrow>
        list_all (\<lambda>c. pab_config (fst c) = Some all_blocked) (put_calls k) \<and>
        (r = None \<longrightarrow>
           s3_calls k = [(create_bucket_call, None), (put_block_call, None)] \<and>
           map (\<lambda>c. method_of (fst c)) (calls k) =
             [Some ''Session'', Some ''client'', Some ''get_caller_identity'', Some ''get'',
              Some ''Session'', Some ''client'',
              Some ''create_bucket'', Some ''put_public_access_block''])"
    by (simp add: cell_create_bucket_def sem fresh_def s3_vals put_calls_def pab_config_def
        method_of_def s3_calls_def on_s3_def is_s3_client_def
        split: option.splits)
  then have first: "list_all (\<lambda>c. pab_config (fst c) = Some all_blocked)
      (put_calls (snd (run_cell w cell_create_bucket fresh)))"
    by (simp add: case_prod_beta)
  have "put_calls (snd (run_cells w s3_notebook fresh)) =
      put_calls (snd (run_cell w cell_create_bucket fresh))"
    using bucket_run [of w]
    by (auto simp add: case_prod_beta put_calls_def method_of_def head_bucket_call_def)
  with first have run: "list_all (\<lambda>c. pab_config (fst c) = Some all_blocked)
      (put_calls (snd (run_cells w s3_notebook fresh)))"
    by simp
  have "pab_config put_block_call = Some all_blocked \<and>
    setting all_blocked ''BlockPublicAcls'' = Some (VBool True) \<and>
    setting all_blocked ''IgnorePublicAcls'' = Some (VBool True) \<and>
    setting all_blocked ''BlockPublicPolicy'' = Some (VBool True) \<and>
    setting all_blocked ''RestrictPublicBuckets'' = Some (VBool True)"
    by (simp add: pab_config_def setting_def put_block_call_def all_blocked_def)
  with cell run show ?thesis
    by simp
qed

theorem bucket_public_access_blocked_witness:
  "fst (run_cell quiet cell_create_bucket fresh) = None \<and>
   s3_calls (snd (run_cell quiet cell_create_bucket fresh)) =
     [(create_bucket_call, None), (put_block_call, None)]"
proof -
  have "fst (run_cell quiet cell_create_bucket fresh) = None"
    by (simp add: cell_create_bucket_def sem fresh_def quiet_def)
  with bucket_public_access_blocked [of quiet] show ?thesis
    by (simp add: case_prod_beta)
qed

lemma head_bucket_other_error:
  "case run_cells (head_world (Some (OtherError ''EndpointConnectionError''))) s3_notebook fresh of
     (rs, k) \<Rightarrow>
       rs ! 8 = Some (OtherError ''EndpointConnectionError'') \<and>
       env k ''setup_s3_bucket_passed'' = Some (VBool False) \<and>
       out k = [path_line, default_bucket_line] \<and> error_lines k = []"
  by (simp add: s3_notebook_def s3_cells sem fresh_def s3_vals head_world_def method_of_def
      path_line_def default_bucket_line_def error_lines_def is_error_line_def)

text \<open>
  C6 (as stated, false). The claim ends: otherwise the flag stays false while an error
  message is printed. The handler is \<open>except ClientError\<close>: when \<open>head_bucket\<close> raises
  anything else (here a connection error) the flag stays false, the cell raises the
  error, and the handler's line is not printed; the output holds the two lines of the
  earlier cells only.
\<close>

theorem head_bucket_other_error_silent:
  "fst (run_cells (head_world (Some (OtherError ''EndpointConnectionError''))) s3_notebook fresh) ! 8 =
     Some (OtherError ''EndpointConnectionError'') \<and>
   env (snd (run_cells (head_world (Some (OtherError ''EndpointConnectionError''))) s3_notebook fresh))
     ''setup_s3_bucket_passed'' = Some (VBool False) \<and>
   out (snd (run_cells (head_world (Some (OtherError ''EndpointConnectionError''))) s3_notebook fresh)) =
     [path_line, default_bucket_line] \<and>
   error_lines (snd (run_cells (head_world (Some (OtherError ''EndpointConnectionError'')))
     s3_notebook fresh)) = []"
  using head_bucket_other_error by (simp add: case_prod_beta)

text \<open>
  C6, amended. In a top-to-bottom run from a fresh kernel, whatever the libraries do:
  the flag \<open>setup_s3_bucket_passed\<close> ends true exactly when the \<open>head_bucket\<close> call was
  made and returned, and false otherwise; the calls on the S3 client are, in this order
  and on the same bucket name, \<open>create_bucket\<close>, \<open>put_public_access_block\<close> and
  \<open>head_bucket\<close>, each at most once (all three when the first cell completes and
  botocore imports); when \<open>head_bucket\<close> raises a \<open>ClientError\<close> the cell completes and
  the handler's line is the one error line printed; when it raises anything else the
  cell raises that error and no error line is printed.
\<close>

theorem head_bucket_sets_flag:
  "case run_cells w s3_notebook fresh of
     (rs, k) \<Rightarrow>
       env k ''setup_s3_bucket_passed'' =
         Some (VBool ((head_bucket_call, None) \<in> set (calls k))) \<and>
       map fst (s3_calls k) \<in>
         set [[], [create_bucket_call], [create_bucket_call, put_block_call],
              [create_bucket_call, head_bucket_call],
              [create_bucket_call, put_block_call, head_bucket_call]] \<and>
       (\<forall>x. (head_bucket_call, Some x) \<in> set (calls k) \<longrightarrow>
          (case x of
             ClientError c \<Rightarrow> rs ! 8 = None \<and> error_lines k = [head_error_line x]
           | _ \<Rightarrow> rs ! 8 = Some x \<and> error_lines k = [])) \<and>
       ((head_bucket_call, None) \<in> set (calls k) \<longrightarrow> rs ! 8 = None \<and> error_lines k = []) \<and>
       (rs ! 1 = None \<and> w (VExt ''botocore.client'') = None \<longrightarrow>
          s3_calls k =
            [(create_bucket_call, None), (put_block_call, None),
             (head_bucket_call, w head_bucket_call)])"
  using bucket_run [of w] by (simp add: case_prod_beta)

theorem head_bucket_sets_flag_witness:
  "case run_cells (head_world (Some (ClientError ''404''))) s3_notebook fresh of
     (rs, k) \<Rightarrow>
       (head_bucket_call, Some (ClientError ''404'')) \<in> set (calls k) \<and>
       rs ! 1 = None \<and> rs ! 8 = None \<and>
       env k ''setup_s3_bucket_passed'' = Some (VBool False) \<and>
       error_lines k = [head_error_line (ClientError ''404'')] \<and>
       s3_calls k =
         [(create_bucket_call, None), (put_block_call, None),
          (head_bucket_call, Some (ClientError ''404''))]"
proof -
  define w where "w = head_world (Some (ClientError ''404''))"
  have a: "case run_cells w s3_notebook fresh of
     (rs, k) \<Rightarrow> (head_bucket_call, Some (ClientError ''404'')) \<in> set (calls k) \<and> rs ! 1 = None"
    unfolding w_def
    by (simp add: s3_notebook_def s3_cells sem fresh_def s3_vals head_world_def method_of_def)
  have b: "w (VExt ''botocore.client'') = None" "w head_bucket_call = Some (ClientError ''404'')"
    unfolding w_def by (simp_all add: head_world_def method_of_def head_bucket_call_def)
  have c: "(head_bucket_call, None) \<noteq> (head_bucket_call, Some (ClientError ''404''))"
    by simp
  from head_bucket_sets_flag [of w] a b show ?thesis
    unfolding w_def [symmetric]
    by (cases "run_cells w s3_notebook fresh") (auto split: exn.splits)
qed

section \<open>The IAM notebook\<close>

text \<open>
  What the guard does once its body has raised a \<open>ClientError\<close>, in any kernel in
  which \<open>ClientError\<close> is the imported class and \<open>print\<close> is the builtin.
\<close>

lemma guarded_already_exists:
  assumes "exec_block w body k = (Some (ClientError ''EntityAlreadyExists''), k1)"
    and "env k1 ''ClientError'' = Some (VAttr m ''ClientError'')"
    and "env k1 ''print'' = None"
  shows "exec w (guarded msg body) k =
           (None, k1\<lparr>env := (env k1)(''e'' := None), out := out k1 @ [[VStr msg]]\<rparr>)"
  using assms by (simp add: guarded_def on_client_error_def sem)

lemma guarded_other_code:
  assumes "exec_block w body k = (Some (ClientError c), k1)"
    and "c \<noteq> ''EntityAlreadyExists''"
    and "env k1 ''ClientError'' = Some (VAttr m ''ClientError'')"
    and "env k1 ''print'' = None"
  shows "exec w (guarded msg body) k =
           (None, k1\<lparr>env := (env k1)(''e'' := None),
                     out := out k1 @
                       [[VBin Mod (VStr ''Unexpected error: %s'') (VExc (ClientError c))]]\<rparr>)"
  using assms by (simp add: guarded_def on_client_error_def sem)

lemma iam_sites:
  "creation_sites iam_notebook =
     [(''create_role'', True), (''create_policy'', True), (''create_policy'', True),
      (''attach_role_policy'', True), (''attach_role_policy'', True)]"
  by (simp add: creation_sites_def creation_methods_def site_defs iam_notebook_def iam_cells)

lemma s3_sites: "creation_sites s3_notebook = [(''create_bucket'', False)]"
  by (simp add: creation_sites_def creation_methods_def site_defs s3_notebook_def s3_cells)

lemma create_bucket_propagates:
  "case run_cell (raising ''create_bucket'' (ClientError c)) cell_create_bucket fresh of
     (r, k) \<Rightarrow> r = Some (ClientError c) \<and> out k = [] \<and> put_calls k = []"
  by (simp add: cell_create_bucket_def sem fresh_def raising_def method_of_def put_calls_def)

text \<open>
  C2 (as stated, false). The claim: every resource-creation call of the repository is
  wrapped in a handler that catches the already-exists code, treats it as success and
  logs. The creation of the bucket is not: the call stands outside any \<open>try\<close>, and when
  it raises \<open>ClientError\<close> with the code BucketAlreadyOwnedByYou the cell raises that
  error, prints nothing and never sets the public-access block.
\<close>

theorem create_bucket_unguarded:
  "creation_sites s3_notebook = [(''create_bucket'', False)] \<and>
   \<not> list_all snd (creation_sites iam_notebook @ creation_sites s3_notebook) \<and>
   fst (run_cell (raising ''create_bucket'' (ClientError ''BucketAlreadyOwnedByYou''))
          cell_create_bucket fresh) = Some (ClientError ''BucketAlreadyOwnedByYou'') \<and>
   out (snd (run_cell (raising ''create_bucket'' (ClientError ''BucketAlreadyOwnedByYou''))
          cell_create_bucket fresh)) = [] \<and>
   put_calls (snd (run_cell (raising ''create_bucket'' (ClientError ''BucketAlreadyOwnedByYou''))
          cell_create_bucket fresh)) = []"
  using create_bucket_propagates [of "''BucketAlreadyOwnedByYou''"]
  by (simp add: iam_sites s3_sites case_prod_beta)

text \<open>
  C2, amended. The five IAM creation calls (create_role, create_policy twice,
  attach_role_policy twice) each stand in a \<open>try\<close> whose clause is
  \<open>except ClientError\<close> with the already-exists handler; when such a body raises
  \<open>ClientError\<close> with the code EntityAlreadyExists, the statement completes without
  raising, prints the handler's message and makes no further call. The one other
  creation call, \<open>create_bucket\<close>, is unguarded: a \<open>ClientError\<close> it raises, whatever
  its code, leaves the cell with nothing printed.
\<close>

theorem iam_creation_guarded:
  "creation_sites iam_notebook =
     [(''create_role'', True), (''create_policy'', True), (''create_policy'', True),
      (''attach_role_policy'', True), (''attach_role_policy'', True)] \<and>
   creation_sites s3_notebook = [(''create_bucket'', False)] \<and>
   (exec_block w body k = (Some (ClientError ''EntityAlreadyExists''), k1) \<and>
    env k1 ''ClientError'' = Some (VAttr m ''ClientError'') \<and> env k1 ''print'' = None \<longrightarrow>
      (case exec w (guarded msg body) k of
         (r, k') \<Rightarrow> r = None \<and> out k' = out k1 @ [[VStr msg]] \<and> calls k' = calls k1)) \<and>
   (case run_cell (raising ''create_bucket'' (ClientError c)) cell_create_bucket fresh of
      (r, k) \<Rightarrow> r = Some (ClientError c) \<and> out k = [])"
  using create_bucket_propagates [of c] guarded_already_exists [of w body k k1 m msg]
  by (auto simp add: iam_sites s3_sites)

text \<open>The world in which \<open>create_role\<close> finds the role already there.\<close>

theorem iam_creation_guarded_witness:
  "case run_cells (raising ''create_role'' (ClientError ''EntityAlreadyExists''))
          [cell_iam_client, cell_assume_role_policy_doc, cell_role_name] fresh of
     (rs, k) \<Rightarrow>
       fst (exec_block (raising ''create_role'' (ClientError ''EntityAlreadyExists''))
              body_create_role k) = Some (ClientError ''EntityAlreadyExists'') \<and>
       fst (exec (raising ''create_role'' (ClientError ''EntityAlreadyExists''))
              (guarded ''Role already exists'' body_create_role) k) = None \<and>
       out (snd (exec (raising ''create_role'' (ClientError ''EntityAlreadyExists''))
              (guarded ''Role already exists'' body_create_role) k)) =
         [[VStr ''Role already exists'']]"
proof -
  define w where "w = raising ''create_role'' (ClientError ''EntityAlreadyExists'')"
  define k where
    "k = snd (run_cells w [cell_iam_client, cell_assume_role_policy_doc, cell_role_name] fresh)"
  define k1 where "k1 = snd (exec_block w body_create_role k)"
  have b: "exec_block w body_create_role k = (Some (ClientError ''EntityAlreadyExists''), k1)"
    unfolding k1_def k_def w_def
    by (simp add: iam_cells sem fresh_def raising_def method_of_def prod_eq_iff)
  have c: "env k1 ''ClientError'' = Some (VAttr (VExt ''botocore.exceptions'') ''ClientError'')"
    unfolding k1_def k_def w_def
    by (simp add: iam_cells sem fresh_def raising_def method_of_def)
  have p: "env k1 ''print'' = None"
    unfolding k1_def k_def w_def
    by (simp add: iam_cells sem fresh_def raising_def method_of_def)
  have o: "out k1 = []"
    unfolding k1_def k_def w_def
    by (simp add: iam_cells sem fresh_def raising_def method_of_def)
  from iam_creation_guarded [of w body_create_role k k1 "VExt ''botocore.exceptions''"
      "''Role already exists''"] b c p o
  have "fst (exec w (guarded ''Role already exists'' body_create_role) k) = None \<and>
        out (snd (exec w (guarded ''Role already exists'' body_create_role) k)) =
          [[VStr ''Role already exists'']]"
    by (simp add: case_prod_beta del: exec.simps)
  with b show ?thesis
    unfolding k_def w_def by (simp add: case_prod_beta del: exec.simps run_cells.simps exec_block.simps)
qed

text \<open>
  C3 (the code does not do this). The claim: when a guarded creation call fails with
  EntityAlreadyExists the notebook carries on as if it had succeeded, and the cells that
  read the created resource's handle still run. On the code, in a fresh kernel: the
  handler prints its message, but the handle was never assigned, so the cell that reads
  \<open>iam_role_redshift\<close> raises \<open>NameError\<close>, and for a policy the \<open>print\<close> that follows
  the \<open>try\<close> in the same cell raises \<open>NameError\<close>.
\<close>

theorem already_exists_leaves_handle_unbound:
  "(case run_cells (raising ''create_role'' (ClientError ''EntityAlreadyExists''))
          iam_notebook fresh of
      (rs, k) \<Rightarrow>
        rs ! 6 = None \<and> out k ! 0 = [VStr ''Role already exists''] \<and>
        rs ! 7 = Some (NameError ''iam_role_redshift'') \<and>
        rs ! 8 = Some (NameError ''iam_role_redshift_arn'')) \<and>
   (case run_cells (raising ''create_policy'' (ClientError ''EntityAlreadyExists''))
          iam_notebook fresh of
      (rs, k) \<Rightarrow>
        rs ! 18 = Some (NameError ''policy_redshift_s3'') \<and>
        rs ! 19 = Some (NameError ''policy_redshift_s3'') \<and>
        rs ! 20 = Some (NameError ''policy_redshift_athena'') \<and>
        rs ! 21 = Some (NameError ''policy_redshift_athena'') \<and>
        [VStr ''Policy already exists''] \<in> set (out k))"
  by (simp add: iam_notebook_def iam_cells sem fresh_def raising_def method_of_def)

text \<open>
  C5. When the body of a guarded creation call raises \<open>ClientError\<close> with a code other
  than EntityAlreadyExists, the \<open>try\<close> statement completes without raising and leaves
  the kernel as the body left it but for one printed line, the error: no further call
  is made (no retry, no rollback) and nothing is re-raised. In a run of the notebook in
  which each call of one creation method raises such an error, every call site of that
  method is called exactly once.
\<close>

theorem unexpected_error_only_printed:
  "(exec_block w body k = (Some (ClientError c), k1) \<and> c \<noteq> ''EntityAlreadyExists'' \<and>
    env k1 ''ClientError'' = Some (VAttr m ''ClientError'') \<and> env k1 ''print'' = None \<longrightarrow>
      exec w (guarded msg body) k =
        (None, k1\<lparr>env := (env k1)(''e'' := None),
                  out := out k1 @
                    [[VBin Mod (VStr ''Unexpected error: %s'') (VExc (ClientError c))]]\<rparr>)) \<and>
   (c \<noteq> ''EntityAlreadyExists'' \<longrightarrow>
      (case run_cells (raising ''create_role'' (ClientError c)) iam_notebook fresh of
         (rs, k) \<Rightarrow>
           rs ! 6 = None \<and>
           out k ! 0 = [VBin Mod (VStr ''Unexpected error: %s'') (VExc (ClientError c))] \<and>
           map snd (filter (\<lambda>e. method_of (fst e) = Some ''create_role'') (calls k)) =
             [Some (ClientError c)]) \<and>
      (case run_cells (raising ''create_policy'' (ClientError c)) iam_notebook fresh of
         (rs, k) \<Rightarrow>
           map snd (filter (\<lambda>e. method_of (fst e) = Some ''create_policy'') (calls k)) =
             [Some (ClientError c), Some (ClientError c)] \<and>
           filter (\<lambda>l. l = [VBin Mod (VStr ''Unexpected error: %s'') (VExc (ClientError c))])
             (out k) =
             [[VBin Mod (VStr ''Unexpected error: %s'') (VExc (ClientError c))],
              [VBin Mod (VStr ''Unexpected error: %s'') (VExc (ClientError c))]]) \<and>
      (case run_cells (raising ''attach_role_policy'' (ClientError c)) iam_notebook fresh of
         (rs, k) \<Rightarrow>
           rs ! 23 = None \<and> rs ! 24 = None \<and>
           map snd (filter (\<lambda>e. method_of (fst e) = Some ''attach_role_policy'') (calls k)) =
             [Some (ClientError c), Some (ClientError c)]))"
  (is "?A \<and> (?H \<longrightarrow> ?R \<and> ?P \<and> ?T)")
proof -
  have a: ?A
    using guarded_other_code [of w body k c k1 m msg] by blast
  have b: "?H \<Longrightarrow> ?R"
    by (simp add: iam_notebook_def iam_cells sem fresh_def raising_def method_of_def)
  have p: "?H \<Longrightarrow> ?P"
    by (simp add: iam_notebook_def iam_cells sem fresh_def raising_def method_of_def)
  have t: "?H \<Longrightarrow> ?T"
    by (simp add: iam_notebook_def iam_cells sem fresh_def raising_def method_of_def)
  show ?thesis
    by (rule conjI, rule a, rule impI, intro conjI, erule b, erule p, erule t)
qed

theorem unexpected_error_only_printed_witness:
  "case run_cells (raising ''create_role'' (ClientError ''AccessDenied''))
          [cell_iam_client, cell_assume_role_policy_doc, cell_role_name] fresh of
     (rs, k) \<Rightarrow>
       fst (exec_block (raising ''create_role'' (ClientError ''AccessDenied''))
              body_create_role k) = Some (ClientError ''AccessDenied'') \<and>
       fst (exec (raising ''create_role'' (ClientError ''AccessDenied''))
              (guarded ''Role already exists'' body_create_role) k) = None \<and>
       out (snd (exec (raising ''create_role'' (ClientError ''AccessDenied''))
              (guarded ''Role already exists'' body_create_role) k)) =
         [[VBin Mod (VStr ''Unexpected error: %s'') (VExc (ClientError ''AccessDenied''))]] \<and>
       map (\<lambda>e. method_of (fst e))
         (calls (snd (exec (raising ''create_role'' (ClientError ''AccessDenied''))
              (guarded ''Role already exists'' body_create_role) k))) =
         [Some ''client'', Some ''dumps'', Some ''create_role'']"
proof -
  define w where "w = raising ''create_role'' (ClientError ''AccessDenied'')"
  define k where
    "k = snd (run_cells w [cell_iam_client, cell_assume_role_policy_doc, cell_role_name] fresh)"
  define k1 where "k1 = snd (exec_block w body_create_role k)"
  have b: "exec_block w body_create_role k = (Some (ClientError ''AccessDenied''), k1)"
    unfolding k1_def k_def w_def
    by (simp add: iam_cells sem fresh_def raising_def method_of_def prod_eq_iff)
  have c: "env k1 ''ClientError'' = Some (VAttr (VExt ''botocore.exceptions'') ''ClientError'')"
    unfolding k1_def k_def w_def
    by (simp add: iam_cells sem fresh_def raising_def method_of_def)
  have p: "env k1 ''print'' = None"
    unfolding k1_def k_def w_def
    by (simp add: iam_cells sem fresh_def raising_def method_of_def)
  have o: "out k1 = []"
    unfolding k1_def k_def w_def
    by (simp add: iam_cells sem fresh_def raising_def method_of_def)
  have m: "map (\<lambda>e. method_of (fst e)) (calls k1) =
      [Some ''client'', Some ''dumps'', Some ''create_role'']"
    unfolding k1_def k_def w_def
    by (simp add: iam_cells sem fresh_def raising_def method_of_def)
  have n: "''AccessDenied'' \<noteq> ''EntityAlreadyExists''"
    by simp
  from unexpected_error_only_printed [of w body_create_role k "''AccessDenied''" k1
      "VExt ''botocore.exceptions''" "''Role already exists''"] b c p n
  have "exec w (guarded ''Role already exists'' body_create_role) k =
        (None, k1\<lparr>env := (env k1)(''e'' := None),
                  out := out k1 @
                    [[VBin Mod (VStr ''Unexpected error: %s'')
                        (VExc (ClientError ''AccessDenied''))]]\<rparr>)"
    by blast
  with b o m show ?thesis
    unfolding k_def w_def
    by (simp add: case_prod_beta del: exec.simps run_cells.simps exec_block.simps)
qed

section \<open>The title-text feature\<close>

lemma title_layers:
  "sequential_layers title_text_embedding_expr =
     [TextVectorization max_tokens, Embedding max_tokens 32 True, GlobalAveragePooling1D]"
  by (simp add: sequential_layers_def title_text_embedding_expr_def layer_of_def callee_def
      keras_layer_def keras_preprocessing_def num_of_def)

lemma position_less: "position x ys = Some i \<Longrightarrow> i < length ys"
  by (induction ys arbitrary: i) (auto split: if_splits option.splits)

lemma token_index_positive: "token_index mt vocab t \<noteq> 0"
  by (simp add: token_index_def split: option.splits)

lemma token_index_less: "token_index max_tokens vocab t < max_tokens"
proof (cases "position t (take (max_tokens - 2) vocab)")
  case None
  then show ?thesis
    by (simp add: token_index_def max_tokens_def)
next
  case (Some i)
  then have "i < length (take (max_tokens - 2) vocab)"
    by (rule position_less)
  then have "i < max_tokens - 2"
    by simp
  with Some show ?thesis
    by (simp add: token_index_def max_tokens_def)
qed

text \<open>Summing vectors of one length, step by step, sums each coordinate.\<close>

lemma sum_steps_nth:
  assumes "list_all (\<lambda>v. length v = d) vs"
  shows "sum_steps d vs = map (\<lambda>j. (\<Sum>v\<leftarrow>vs. v ! j)) [0..<d]"
  using assms
proof (induction vs)
  case Nil
  show ?case
    by (rule nth_equalityI) (simp_all add: sum_steps_def)
next
  case (Cons v vs)
  then have l: "length v = d" and ih: "sum_steps d vs = map (\<lambda>j. (\<Sum>v\<leftarrow>vs. v ! j)) [0..<d]"
    by simp_all
  have "sum_steps d (v # vs) = map2 (+) v (sum_steps d vs)"
    by (simp add: sum_steps_def)
  also have "\<dots> = map (\<lambda>j. (\<Sum>u\<leftarrow>v # vs. u ! j)) [0..<d]"
    by (rule nth_equalityI) (simp_all add: ih l)
  finally show ?case .
qed

text \<open>A padding step adds nothing to the sum and nothing to the count.\<close>

lemma masked_steps:
  assumes rows: "list_all (\<lambda>i. length (table i) = d) ids" and zero: "length (table 0) = d"
    and pos: "list_all (\<lambda>i. i \<noteq> 0) ids" and j: "j < d"
  shows "(\<Sum>v\<leftarrow>map times_mask (map (\<lambda>i. (table i, i \<noteq> 0)) (ids @ replicate pad 0)). v ! j) =
         (\<Sum>i\<leftarrow>ids. table i ! j)"
proof -
  have a: "(\<Sum>v\<leftarrow>map times_mask (map (\<lambda>i. (table i, i \<noteq> 0)) ids). v ! j) =
      (\<Sum>i\<leftarrow>ids. table i ! j)"
    using rows pos j
    by (induction ids) (simp_all add: times_mask_def)
  have b: "(\<Sum>v\<leftarrow>map times_mask (map (\<lambda>i. (table i, i \<noteq> 0)) (replicate pad 0)). v ! j) = 0"
    using zero j by (induction pad) (simp_all add: times_mask_def)
  from a b show ?thesis
    by simp
qed

lemma masked_lengths:
  assumes "list_all (\<lambda>i. length (table i) = d) ids" and "length (table 0) = d"
  shows "list_all (\<lambda>v. length v = d)
           (map times_mask (map (\<lambda>i. (table i, i \<noteq> 0)) (ids @ replicate pad 0)))"
  using assms by (auto simp add: list_all_iff times_mask_def)

lemma masked_count:
  assumes "list_all (\<lambda>i. i \<noteq> 0) ids"
  shows "length (filter snd (map (\<lambda>i. (table i, i \<noteq> 0)) (ids @ replicate pad 0))) = length ids"
proof -
  have "filter snd (map (\<lambda>i. (table i, i \<noteq> 0)) ids) = map (\<lambda>i. (table i, i \<noteq> 0)) ids"
    using assms by (induction ids) simp_all
  moreover have "filter snd (map (\<lambda>i. (table i, i \<noteq> 0)) (replicate pad 0)) = []"
    by (induction pad) simp_all
  ultimately show ?thesis
    by simp
qed

lemma pool_is_mean:
  assumes rows: "list_all (\<lambda>i. length (table i) = d) ids" and zero: "length (table 0) = d"
    and pos: "list_all (\<lambda>i. i \<noteq> 0) ids"
  shows "pool d (map (\<lambda>i. (table i, i \<noteq> 0)) (ids @ replicate pad 0)) =
         (if ids = [] then TNaN else TVec (mean_vec d (map table ids)))"
proof -
  let ?xs = "map (\<lambda>i. (table i, i \<noteq> 0)) (ids @ replicate pad 0)"
  have n: "length (filter snd ?xs) = length ids"
    using pos by (rule masked_count)
  have s: "sum_steps d (map times_mask ?xs) =
      map (\<lambda>j. (\<Sum>v\<leftarrow>map times_mask ?xs. v ! j)) [0..<d]"
    using masked_lengths [OF rows zero] by (rule sum_steps_nth)
  have m: "map (\<lambda>j. (\<Sum>v\<leftarrow>map times_mask ?xs. v ! j)) [0..<d] =
      map (\<lambda>j. (\<Sum>i\<leftarrow>ids. table i ! j)) [0..<d]"
    using masked_steps [OF rows zero pos] by simp
  have t: "(\<Sum>v\<leftarrow>map table ids. v ! j) = (\<Sum>i\<leftarrow>ids. table i ! j)" for j
    by (simp add: comp_def)
  show ?thesis
    unfolding pool_def Let_def n s m
    by (simp add: mean_vec_def t comp_def)
qed

lemma title_text_pipeline:
  assumes "\<forall>i<max_tokens. length (table i) = 32"
  shows "title_text_embedding vocab table pad s =
         (if word_ids vocab s = [] then TNaN
          else TVec (mean_vec 32 (map table (word_ids vocab s))))"
proof -
  let ?ids = "word_ids vocab s"
  have less: "list_all (\<lambda>i. i < max_tokens) ?ids"
    by (simp add: word_ids_def list_all_iff token_index_less)
  have pos: "list_all (\<lambda>i. i \<noteq> 0) ?ids"
    using token_index_positive by (auto simp add: word_ids_def list_all_iff)
  have rows: "list_all (\<lambda>i. length (table i) = 32) ?ids"
    using less assms by (simp add: list_all_iff)
  have zero: "length (table 0) = 32"
    using assms by (simp add: max_tokens_def)
  have all: "list_all (\<lambda>i. i < max_tokens) (?ids @ replicate pad 0)"
    using less by (auto simp add: list_all_iff max_tokens_def)
  have "title_text_embedding vocab table pad s =
      pool 32 (map (\<lambda>i. (table i, i \<noteq> 0)) (?ids @ replicate pad 0))"
    using all
    by (simp add: title_text_embedding_def title_layers apply_layer_def vectorize_def
        word_ids_def embed_def)
  with pool_is_mean [OF rows zero pos, of pad] show ?thesis
    by simp
qed

lemma tokens_examples:
  "tokens [] = []" "tokens ''?!'' = []"
  "tokens ''Star Wars (1977)'' = [''star'', ''wars'', ''1977'']"
  by (simp_all add: tokens_def standardize_def lower_def punctuation_def whitespace_def)

text \<open>
  C7 (as stated, false). The claim: for every input title the pipeline produces a
  single vector equal to the mean of its word embeddings. A title with no word (the
  empty title, or one of punctuation only) has no token; every step of its sequence is
  masked, the average is 0/0, and the pipeline produces NaN, not a mean.
\<close>

theorem title_without_words_has_no_mean:
  "word_ids [''star'', ''wars''] [] = [] \<and>
   title_text_embedding [''star'', ''wars''] (\<lambda>i. replicate 32 (real i)) 0 [] = TNaN \<and>
   word_ids [''star'', ''wars''] ''?!'' = [] \<and>
   title_text_embedding [''star'', ''wars''] (\<lambda>i. replicate 32 (real i)) 3 ''?!'' = TNaN"
proof -
  have "\<forall>i<max_tokens. length (replicate 32 (real i)) = 32"
    by simp
  from title_text_pipeline [OF this] show ?thesis
    by (simp add: word_ids_def tokens_examples)
qed

text \<open>
  C7, amended. The text feature of a title is computed by exactly three stages: text
  vectorization with a learned vocabulary of at most 10000 indices, an embedding of each
  index into 32 numbers with index 0 masked, and an average over the steps. For every
  title with at least one word, whatever the vocabulary, the embedding table (its rows
  of length 32) and the padding of the batch, the pipeline produces one vector of length
  32, the mean of the embeddings of the title's words (a word outside the vocabulary
  has the embedding of index 1). For a title with no word it produces NaN.
\<close>

theorem title_text_is_mean_of_words:
  "sequential_layers title_text_embedding_expr =
     [TextVectorization 10000, Embedding 10000 32 True, GlobalAveragePooling1D] \<and>
   ((\<forall>i<max_tokens. length (table i) = 32) \<longrightarrow>
      (word_ids vocab s \<noteq> [] \<longrightarrow>
         title_text_embedding vocab table pad s =
           TVec (mean_vec 32 (map table (word_ids vocab s))) \<and>
         length (mean_vec 32 (map table (word_ids vocab s))) = 32) \<and>
      (word_ids vocab s = [] \<longrightarrow> title_text_embedding vocab table pad s = TNaN))"
  using title_text_pipeline [of table vocab pad s]
  by (simp add: title_layers max_tokens_def mean_vec_def)

theorem title_text_is_mean_of_words_witness:
  "word_ids [''star'', ''wars''] ''Star Wars (1977)'' = [2, 3, 1] \<and>
   title_text_embedding [''star'', ''wars''] (\<lambda>i. replicate 32 (real i)) 2 ''Star Wars (1977)'' =
     TVec (replicate 32 2)"
proof -
  have rows: "\<forall>i<max_tokens. length (replicate 32 (real i)) = 32"
    by simp
  have ids: "word_ids [''star'', ''wars''] ''Star Wars (1977)'' = [2, 3, 1]"
    by (simp add: word_ids_def tokens_examples token_index_def max_tokens_def)
  have mean: "mean_vec 32 (map (\<lambda>i. replicate 32 (real i)) [2, 3, 1]) = replicate 32 2"
    by (rule nth_equalityI) (simp_all add: mean_vec_def)
  from title_text_is_mean_of_words [of "\<lambda>i. replicate 32 (real i)" "[''star'', ''wars'']"
      "''Star Wars (1977)''" 2] rows ids mean
  show ?thesis
    by simp
qed

section \<open>The categorical features\<close>

lemma position_nth: "position x ys = Some i \<Longrightarrow> ys ! i = x"
  by (induction ys arbitrary: i) (auto split: if_splits option.splits)

lemma position_None: "position x ys = None \<longleftrightarrow> x \<notin> set ys"
  by (induction ys) (auto split: option.splits)

lemma lookup_layer: "layer_of movie_title_lookup_expr = StringLookup 1"
  by (simp add: layer_of_def movie_title_lookup_expr_def keras_preprocessing_def callee_def)

lemma hashing_layer: "layer_of movie_title_hashing_expr = Hashing 200000"
  by (simp add: layer_of_def movie_title_hashing_expr_def keras_preprocessing_def callee_def
      num_of_def num_hashing_bins_def)

text \<open>
  C8. The two mappings are total. The lookup, constructed with its defaults, gives every
  string an index, below the size of its vocabulary: a value outside the adapted
  vocabulary gets the reserved out-of-vocabulary index 1 (with a single such index the
  hash has one place to go), the empty string the mask index 0, and a value of the
  vocabulary its own index from 2 on. The hashing layer, constructed with
  \<open>num_bins = 200000\<close>, gives every string a bin below 200000.
\<close>

theorem categorical_mappings_total:
  "layer_of movie_title_lookup_expr = StringLookup 1 \<and>
   layer_of movie_title_hashing_expr = Hashing 200000 \<and>
   (case movie_title_lookup fp vocab s of
      Some i \<Rightarrow>
        i < vocab_size vocab \<and>
        (s \<noteq> [] \<and> s \<notin> set vocab \<longrightarrow> i = 1) \<and>
        (s \<noteq> [] \<and> s \<in> set vocab \<longrightarrow> 2 \<le> i \<and> vocab ! (i - 2) = s) \<and>
        (s = [] \<longrightarrow> i = 0)
    | None \<Rightarrow> False) \<and>
   (case movie_title_hashing fp s of Some b \<Rightarrow> b < 200000 | None \<Rightarrow> False)"
proof -
  have l: "case movie_title_lookup fp vocab s of
      Some i \<Rightarrow>
        i < vocab_size vocab \<and>
        (s \<noteq> [] \<and> s \<notin> set vocab \<longrightarrow> i = 1) \<and>
        (s \<noteq> [] \<and> s \<in> set vocab \<longrightarrow> 2 \<le> i \<and> vocab ! (i - 2) = s) \<and>
        (s = [] \<longrightarrow> i = 0)
    | None \<Rightarrow> False"
  proof (cases "position s vocab")
    case None
    then have "s \<notin> set vocab"
      by (simp add: position_None)
    with None show ?thesis
      by (simp add: movie_title_lookup_def lookup_layer categorical_index_def
          string_lookup_def vocab_size_def)
  next
    case (Some i)
    then have "i < length vocab" "vocab ! i = s" "s \<in> set vocab"
      using position_less [OF Some] position_nth [OF Some] position_None [of s vocab]
      by simp_all
    with Some show ?thesis
      by (simp add: movie_title_lookup_def lookup_layer categorical_index_def
          string_lookup_def vocab_size_def)
  qed
  have h: "case movie_title_hashing fp s of Some b \<Rightarrow> b < 200000 | None \<Rightarrow> False"
    by (simp add: movie_title_hashing_def hashing_layer categorical_index_def hashing_def)
  from l h lookup_layer hashing_layer show ?thesis
    by simp
qed

theorem categorical_mappings_total_witness:
  "movie_title_lookup (\<lambda>s. length s) [''Star Wars (1977)'', ''Heat (1995)''] ''Star Wars (1977)'' =
     Some 2 \<and>
   movie_title_lookup (\<lambda>s. length s) [''Star Wars (1977)'', ''Heat (1995)''] ''Alien (1979)'' =
     Some 1 \<and>
   movie_title_lookup (\<lambda>s. length s) [''Star Wars (1977)'', ''Heat (1995)''] [] = Some 0 \<and>
   movie_title_hashing (\<lambda>s. 400000 + length s) ''Star Wars (1977)'' = Some 16"
proof -
  have a: "''Star Wars (1977)'' \<in> set [''Star Wars (1977)'', ''Heat (1995)'']"
    "''Alien (1979)'' \<notin> set [''Star Wars (1977)'', ''Heat (1995)'']"
    by simp_all
  have v: "movie_title_lookup (\<lambda>s. length s) [''Star Wars (1977)'', ''Heat (1995)'']
      ''Star Wars (1977)'' = Some 2"
    "movie_title_lookup (\<lambda>s. length s) [''Star Wars (1977)'', ''Heat (1995)'']
      ''Alien (1979)'' = Some 1"
    "movie_title_lookup (\<lambda>s. length s) [''Star Wars (1977)'', ''Heat (1995)''] [] = Some 0"
    "movie_title_hashing (\<lambda>s. 400000 + length s) ''Star Wars (1977)'' = Some 16"
    by (simp_all add: movie_title_lookup_def movie_title_hashing_def categorical_index_def
        string_lookup_def hashing_def layer_of_def movie_title_lookup_expr_def
        movie_title_hashing_expr_def keras_preprocessing_def callee_def num_of_def
        num_hashing_bins_def)
  from categorical_mappings_total [where fp = "\<lambda>s. length s"
      and vocab = "[''Star Wars (1977)'', ''Heat (1995)'']" and s = "''Star Wars (1977)''"] a v
  show ?thesis
    by simp
qed

end
